theory Spec2Isabelle
  imports Main
begin

section \<open>Python string and integer primitives used by snapraid-runner\<close>

text \<open>
  Text is modelled as \<^typ>\<open>string\<close>, one \<^typ>\<open>char\<close> per code point (code points below 256).
  The byte streams of the subprocess are taken after \<open>decode()\<close>; integers are Python's
  unbounded integers, \<^typ>\<open>int\<close>.
\<close>

definition LF :: char where
  "LF = CHR 0x0A"

definition CR :: char where
  "CR = CHR 0x0D"

definition TAB :: char where
  "TAB = CHR 0x09"

definition SPC :: char where
  "SPC = CHR 0x20"

text \<open>\<open>str.isspace\<close> on one code point below 256.\<close>

definition isspace :: "char \<Rightarrow> bool" where
  "isspace c = (c \<in> set [CHR 0x09, CHR 0x0A, CHR 0x0B, CHR 0x0C, CHR 0x0D,
                            CHR 0x1C, CHR 0x1D, CHR 0x1E, CHR 0x1F, CHR 0x20,
                            CHR 0x85, CHR 0xA0])"

text \<open>\<open>s.strip()\<close>: leading and trailing whitespace removed.\<close>

definition str_strip :: "string \<Rightarrow> string" where
  "str_strip s = rev (dropWhile isspace (rev (dropWhile isspace s)))"

text \<open>\<open>s.split(sep)\<close> for a one-character separator: never empty, \<open>"".split(sep) = [""]\<close>.\<close>

fun str_split :: "char \<Rightarrow> string \<Rightarrow> string list" where
  "str_split sep [] = [[]]"
| "str_split sep (c # cs) =
     (if c = sep then [] # str_split sep cs
      else (case str_split sep cs of
              w # ws \<Rightarrow> (c # w) # ws
            | [] \<Rightarrow> [[c]]))"

text \<open>Python slice bounds: a negative index counts from the end, and both are clipped.\<close>

definition slice_index :: "nat \<Rightarrow> int \<Rightarrow> nat" where
  "slice_index n i = (if i < 0 then nat (max 0 (int n + i)) else min (nat i) n)"

text \<open>\<open>s[i:j]\<close>; \<open>None\<close> stands for an omitted bound.\<close>

definition slice :: "'a list \<Rightarrow> int option \<Rightarrow> int option \<Rightarrow> 'a list" where
  "slice xs i j =
     (let n = length xs;
          a = (case i of None \<Rightarrow> 0 | Some i' \<Rightarrow> slice_index n i');
          b = (case j of None \<Rightarrow> n | Some j' \<Rightarrow> slice_index n j')
      in take (b - a) (drop a xs))"

text \<open>\<open>s.count(c, start, end)\<close> for a one-character needle.\<close>

definition str_count :: "string \<Rightarrow> char \<Rightarrow> int \<Rightarrow> int \<Rightarrow> int" where
  "str_count s c start end = int (count_list (slice s (Some start) (Some end)) c)"

text \<open>\<open>str(n)\<close> and \<open>"{}".format(n)\<close> for an integer: decimal digits, a minus sign when negative.\<close>

definition digit_char :: "nat \<Rightarrow> char" where
  "digit_char d = ''0123456789'' ! d"

function str_nat :: "nat \<Rightarrow> string" where
  "str_nat n = (if n < 10 then [digit_char n] else str_nat (n div 10) @ [digit_char (n mod 10)])"
  by pat_completeness auto
termination
  by (relation "measure (\<lambda>n. n)") auto

declare str_nat.simps [simp del]

definition str_int :: "int \<Rightarrow> string" where
  "str_int i = (if i < 0 then CHR ''-'' # str_nat (nat (- i)) else str_nat (nat i))"



section \<open>Stream Tee: the per-line step of \<open>tee_thread\<close>\<close>

text \<open>
  Lines 33 to 36: the decoded line is stripped, and when it still holds a carriage return
  only the last \<open>\r\<close>-separated piece is kept. This is the value appended to \<open>out_lines\<close>;
  the value logged is that one stripped again (line 37).
\<close>

definition tee_clean :: "string \<Rightarrow> string" where
  "tee_clean raw =
     (let line = str_strip raw
      in if CR \<in> set line then last (str_split CR line) else line)"

definition tee_logged :: "string \<Rightarrow> string" where
  "tee_logged raw = str_strip (tee_clean raw)"

section \<open>Diff classifier (lines 273 and 274 of \<open>run\<close>)\<close>

text \<open>\<open>collections.Counter\<close> over a list: a lookup of a missing key gives 0.\<close>

definition Counter :: "'a list \<Rightarrow> 'a \<Rightarrow> int" where
  "Counter xs x = int (count_list xs x)"

definition diff_keys :: "string list" where
  "diff_keys = [''add'', ''remove'', ''move'', ''update'']"

definition classify :: "string list \<Rightarrow> (string \<rightharpoonup> int)" where
  "classify diff_out =
     (let diff_results = Counter (map (\<lambda>line. hd (str_split SPC line)) diff_out)
      in map_of (map (\<lambda>x. (x, diff_results x)) diff_keys))"

text \<open>
  The reading of the specification: the category of a line is its first
  whitespace-delimited token (the first maximal run of non-whitespace characters, as
  \<open>line.split()\<close> gives it); a line of whitespace only has none.
\<close>

definition spec_first_token :: "string \<Rightarrow> string option" where
  "spec_first_token line =
     (let rest = dropWhile isspace line
      in if rest = [] then None else Some (takeWhile (\<lambda>c. \<not> isspace c) rest))"

definition spec_classify :: "string list \<Rightarrow> (string \<rightharpoonup> int)" where
  "spec_classify diff_out =
     map_of (map (\<lambda>x. (x, int (length (filter (\<lambda>line. spec_first_token line = Some x) diff_out))))
               diff_keys)"

section \<open>Log shortening of \<open>send_email\<close> (lines 99 to 109)\<close>

definition shorten_note :: string where
  "shorten_note = ''NOTE: Log was too big for email and was shortened'' @ [LF, LF]"

definition shorten_marker :: "int \<Rightarrow> string" where
  "shorten_marker cut_lines =
     ''[...]'' @ [LF, LF, LF] @ '' --- LOG WAS TOO BIG - '' @ str_int cut_lines @
     '' LINES REMOVED --'' @ [LF, LF, LF] @ ''[...]''"

text \<open>
  \<open>email_maxsize\<close> is the configured value; \<open>maxsize\<close> is that times 1024. Python's
  \<open>-maxsize // 2\<close> is \<open>(-maxsize) // 2\<close>, floor division.
\<close>

definition shorten_log :: "int \<Rightarrow> string \<Rightarrow> string" where
  "shorten_log email_maxsize log =
     (let maxsize = email_maxsize * 1024
      in if maxsize \<noteq> 0 \<and> int (length log) > maxsize then
           (let cut_lines = str_count log LF (maxsize div 2) ((- maxsize) div 2)
            in shorten_note @ slice log None (Some (maxsize div 2)) @
               shorten_marker cut_lines @ slice log (Some ((- maxsize) div 2)) None)
         else log)"

definition email_body :: "bool \<Rightarrow> int \<Rightarrow> string \<Rightarrow> string" where
  "email_body success email_maxsize log =
     (if success then ''SnapRAID job completed successfully:'' @ [LF, LF, LF]
      else ''Error during SnapRAID job:'' @ [LF, LF, LF]) @ shorten_log email_maxsize log"

text \<open>\<open>sub in s\<close> on strings.\<close>

fun str_contains :: "string \<Rightarrow> string \<Rightarrow> bool" where
  "str_contains sub [] = (sub = [])"
| "str_contains sub (c # cs) = (take (length sub) (c # cs) = sub \<or> str_contains sub cs)"

text \<open>\<open>xs.insert(i, x)\<close> for \<open>i \<ge> 0\<close>: an index past the end appends.\<close>

definition list_insert :: "nat \<Rightarrow> 'a \<Rightarrow> 'a list \<Rightarrow> 'a list" where
  "list_insert i x xs = take i xs @ [x] @ drop i xs"







section \<open>Exceptions\<close>

text \<open>
  The exceptions the program raises or meets. All but \<open>SystemExit\<close> derive from
  \<open>Exception\<close>; \<open>sys.exit\<close> raises \<open>SystemExit\<close>, which \<open>except Exception\<close> lets through.
\<close>

datatype exn =
    CalledProcessError int string
  | OSError string
  | SMTPException string
  | AttributeError string
  | KeyError string
  | SystemExit int

fun is_Exception :: "exn \<Rightarrow> bool" where
  "is_Exception (SystemExit _) = False"
| "is_Exception _ = True"

fun is_CalledProcessError :: "exn \<Rightarrow> bool" where
  "is_CalledProcessError (CalledProcessError _ _) = True"
| "is_CalledProcessError _ = False"

section \<open>Configuration (\<open>load_config\<close>, lines 150 to 176)\<close>

text \<open>
  The global \<open>config\<close> after \<open>load_config\<close>: one field per option the program reads, with
  the type \<open>load_config\<close> gives it.
\<close>

record config =
  snapraid_executable :: string
  snapraid_config :: string
  snapraid_deletethreshold :: int
  snapraid_touch :: bool
  logging_file :: string
  logging_maxsize :: int
  email_sendon :: string
  email_subject :: string
  email_from :: string
  email_to :: string
  email_short :: bool
  email_maxsize :: int
  smtp_host :: string
  smtp_port :: string
  smtp_ssl :: bool
  smtp_user :: string
  smtp_password :: string
  scrub_enabled :: bool
  scrub_percentage :: int
  scrub_older_than :: int








section \<open>Logger setup (\<open>setup_logger\<close>, lines 179 to 210)\<close>

definition OUTPUT :: nat where
  "OUTPUT = 15"

definition OUTERR :: nat where
  "OUTERR = 25"

definition INFO :: nat where
  "INFO = 20"

definition ERROR :: nat where
  "ERROR = 40"

text \<open>Line 194.\<close>

definition max_log_size :: "config \<Rightarrow> int" where
  "max_log_size cfg = min (logging_maxsize cfg) 0 * 1024"

text \<open>
  The handlers on the root logger after a \<open>setup_logger\<close> in which nothing raised: the
  console, the rotating file (path, \<open>maxBytes\<close>, \<open>backupCount\<close>) when a log file is
  configured, and the in-memory email log with its level when \<open>sendon\<close> is set.
\<close>

datatype handler =
    ConsoleHandler
  | RotatingFileHandler string int nat
  | EmailHandler nat

definition logger_handlers :: "config \<Rightarrow> handler list" where
  "logger_handlers cfg =
     [ConsoleHandler] @
     (if logging_file cfg \<noteq> [] then [RotatingFileHandler (logging_file cfg) (max_log_size cfg) 9]
      else []) @
     (if email_sendon cfg \<noteq> [] then [EmailHandler (if email_short cfg then INFO else 0)]
      else [])"

text \<open>
  \<open>os.path.dirname\<close> (POSIX): the path up to its last slash, without trailing slashes unless
  it is slashes only; empty when the path has no slash.
\<close>

definition dirname :: "string \<Rightarrow> string" where
  "dirname p =
     (let head = rev (dropWhile (\<lambda>c. c \<noteq> CHR ''/'') (rev p))
      in if head \<noteq> [] \<and> head \<noteq> replicate (length head) (CHR ''/'')
         then rev (dropWhile (\<lambda>c. c = CHR ''/'') (rev head))
         else head)"

text \<open>
  The file system as \<open>setup_logger\<close> meets it: whether a path exists, and whether
  \<open>os.makedirs\<close> and the opening of the log file by \<open>RotatingFileHandler\<close> raise
  (\<open>Some msg\<close>: an \<open>OSError\<close> with that text). The empty path never exists, and
  \<open>os.makedirs("")\<close> always raises \<open>FileNotFoundError\<close>, an \<open>OSError\<close>.
\<close>

record filesystem =
  path_exists :: "string \<Rightarrow> bool"
  makedirs :: "string \<Rightarrow> string option"
  open_log :: "string \<Rightarrow> string option"

definition os_path_exists :: "filesystem \<Rightarrow> string \<Rightarrow> bool" where
  "os_path_exists fs p = (p \<noteq> [] \<and> path_exists fs p)"

definition os_makedirs :: "filesystem \<Rightarrow> string \<Rightarrow> string option" where
  "os_makedirs fs p =
     (if p = [] then Some ''[Errno 2] No such file or directory: '' else makedirs fs p)"

text \<open>
  \<open>setup_logger\<close>: with a log file configured, its directory is made when it does not
  exist, line 194 computes the cap, and the handler opens the file; each of the two can
  raise, and then no handler list is reached (\<open>main\<close> exits with status 2).
\<close>

definition setup_logger :: "filesystem \<Rightarrow> config \<Rightarrow> exn + handler list" where
  "setup_logger fs cfg =
     (if logging_file cfg \<noteq> [] then
        (let log_file = logging_file cfg;
             log_dir = dirname log_file
         in case (if \<not> os_path_exists fs log_dir then os_makedirs fs log_dir else None) of
              Some msg \<Rightarrow> Inl (OSError msg)
            | None \<Rightarrow>
                (case open_log fs log_file of
                   Some msg \<Rightarrow> Inl (OSError msg)
                 | None \<Rightarrow> Inr (logger_handlers cfg)))
      else Inr (logger_handlers cfg))"

section \<open>The environment, the state and the effects\<close>

text \<open>
  What the operating system answers to \<open>subprocess.Popen\<close>: the executable is not found
  (\<open>FileNotFoundError\<close>), another \<open>OSError\<close> is raised, or the process runs and exits. For a
  process that ran, the decoded lines of both pipes are given in the order in which the
  two tee threads handed them to the logger, each tagged with its stream.
\<close>

datatype stream = Stdout | Stderr

datatype proc_outcome =
    NotFound
  | PopenError string
  | Exited int "(stream \<times> string) list"

record mail =
  mail_ssl :: bool
  mail_host :: string
  mail_port :: "string option"
  mail_login :: "(string \<times> string) option"
  mail_from :: string
  mail_to :: "string list"
  mail_subject :: string
  mail_body :: string

text \<open>
  The environment of one run: the file system test of line 258, the outcome of each
  \<open>Popen\<close> by argument vector, the SMTP transport (\<open>Some msg\<close>: it raised an exception with
  that text), and the parts of the standard library that print times, tracebacks and
  signal names.
\<close>

record env =
  isfile :: "string \<Rightarrow> bool"
  popen :: "string list \<Rightarrow> proc_outcome"
  smtp_deliver :: "mail \<Rightarrow> string option"
  log_format :: "nat \<Rightarrow> string \<Rightarrow> string"
  format_exc :: "exn \<Rightarrow> string"
  signal_repr :: "int \<Rightarrow> string option"

datatype event =
    Log nat string
  | Spawn "string list"
  | SendMail mail
  | Finish bool

text \<open>
  The state: what has happened so far, the global \<open>email_log\<close> (\<open>None\<close> until
  \<open>setup_logger\<close> creates it) with the level of its handler, and the store of the list
  objects passed as \<open>args\<close>.
\<close>

record runner_state =
  trace :: "event list"
  email_log :: "string option"
  email_level :: nat
  heap :: "nat \<Rightarrow> string list"
  next_ref :: nat

fun email_handler_level :: "handler list \<Rightarrow> nat option" where
  "email_handler_level [] = None"
| "email_handler_level (EmailHandler l # hs) = Some l"
| "email_handler_level (h # hs) = email_handler_level hs"

definition init_state :: "config \<Rightarrow> runner_state" where
  "init_state cfg =
     \<lparr> trace = [],
       email_log = (case email_handler_level (logger_handlers cfg) of
                      None \<Rightarrow> None | Some l \<Rightarrow> Some []),
       email_level = (case email_handler_level (logger_handlers cfg) of
                        None \<Rightarrow> 0 | Some l \<Rightarrow> l),
       heap = (\<lambda>r. []),
       next_ref = 0 \<rparr>"

type_synonym 'a action = "runner_state \<Rightarrow> runner_state \<times> (exn + 'a)"

definition ret :: "'a \<Rightarrow> 'a action" where
  "ret x s = (s, Inr x)"

definition raise :: "exn \<Rightarrow> 'a action" where
  "raise e s = (s, Inl e)"

definition then_do :: "'a action \<Rightarrow> ('a \<Rightarrow> 'b action) \<Rightarrow> 'b action" where
  "then_do m f s = (case m s of (s', Inl e) \<Rightarrow> (s', Inl e) | (s', Inr x) \<Rightarrow> f x s')"

definition seq :: "'a action \<Rightarrow> 'b action \<Rightarrow> 'b action" where
  "seq m k = then_do m (\<lambda>x. k)"

text \<open>\<open>try: m except C as e: h e\<close>, where \<open>catches\<close> tells the instances of \<open>C\<close>.\<close>

definition try_except :: "'a action \<Rightarrow> (exn \<Rightarrow> bool) \<Rightarrow> (exn \<Rightarrow> 'a action) \<Rightarrow> 'a action" where
  "try_except m catches h s =
     (case m s of
        (s', Inl e) \<Rightarrow> if catches e then h e s' else (s', Inl e)
      | (s', Inr x) \<Rightarrow> (s', Inr x))"

text \<open>
  A log record reaches the console (the trace) when its level passes the root logger's
  (\<open>OUTPUT\<close>), and the email log when that exists and the record passes its handler's
  level too. \<open>extra\<close> is the traceback text that \<open>logging.exception\<close> adds.
\<close>

definition emit :: "env \<Rightarrow> nat \<Rightarrow> string \<Rightarrow> string \<Rightarrow> unit action" where
  "emit env level msg extra s =
     (if level < OUTPUT then (s, Inr ())
      else (s\<lparr> trace := trace s @ [Log level msg],
               email_log := (case email_log s of
                               None \<Rightarrow> None
                             | Some t \<Rightarrow>
                                 if email_level s \<le> level
                                 then Some (t @ log_format env level msg @ extra @ [LF])
                                 else Some t) \<rparr>, Inr ()))"

definition logging_log :: "env \<Rightarrow> nat \<Rightarrow> string \<Rightarrow> unit action" where
  "logging_log env level msg = emit env level msg []"

definition logging_info :: "env \<Rightarrow> string \<Rightarrow> unit action" where
  "logging_info env msg = logging_log env INFO msg"

definition logging_error :: "env \<Rightarrow> string \<Rightarrow> unit action" where
  "logging_error env msg = logging_log env ERROR msg"

definition logging_exception :: "env \<Rightarrow> string \<Rightarrow> exn \<Rightarrow> unit action" where
  "logging_exception env msg e = emit env ERROR msg (LF # format_exc env e)"

section \<open>\<open>send_email\<close> and \<open>finish\<close> (lines 83 to 147)\<close>

definition send_email :: "env \<Rightarrow> config \<Rightarrow> bool \<Rightarrow> unit action" where
  "send_email env cfg success =
     (if length (smtp_host cfg) = 0
      then logging_error env ''Failed to send email because smtp host is not set''
      else (\<lambda>s.
        case email_log s of
          None \<Rightarrow> (s, Inl (AttributeError ''getvalue''))
        | Some log \<Rightarrow>
            (let m = \<lparr> mail_ssl = smtp_ssl cfg,
                       mail_host = smtp_host cfg,
                       mail_port = (if smtp_port cfg \<noteq> [] then Some (smtp_port cfg) else None),
                       mail_login = (if smtp_user cfg \<noteq> []
                                     then Some (smtp_user cfg, smtp_password cfg) else None),
                       mail_from = email_from cfg,
                       mail_to = [email_to cfg],
                       mail_subject = email_subject cfg @
                                      (if success then '' SUCCESS'' else '' ERROR''),
                       mail_body = email_body success (email_maxsize cfg) log \<rparr>;
                 s' = s\<lparr> trace := trace s @ [SendMail m] \<rparr>
             in case smtp_deliver env m of
                  None \<Rightarrow> (s', Inr ())
                | Some err \<Rightarrow> (s', Inl (SMTPException err)))))"

definition banner :: "nat \<Rightarrow> string" where
  "banner n = replicate n (CHR ''='')"

definition finish :: "env \<Rightarrow> config \<Rightarrow> bool \<Rightarrow> unit action" where
  "finish env cfg is_success =
     seq (\<lambda>s. (s\<lparr> trace := trace s @ [Finish is_success] \<rparr>, Inr ()))
    (seq (if str_contains (if is_success then ''success'' else ''error'') (email_sendon cfg)
          then try_except (send_email env cfg is_success) is_Exception
                 (\<lambda>e. logging_exception env ''Failed to send email'' e)
          else ret ())
    (seq (if is_success
          then seq (logging_info env (banner 60))
              (seq (logging_info env ''Run finished successfully.'')
                   (logging_info env (banner 60 @ [LF])))
          else seq (logging_error env (banner 60))
              (seq (logging_error env ''Run failed!'')
                   (logging_error env (banner 60 @ [LF]))))
         (raise (SystemExit (if is_success then 0 else 1)))))"

section \<open>\<open>snapraid_command\<close> with its two tee threads (lines 25 to 80)\<close>

fun stream_level :: "stream \<Rightarrow> nat" where
  "stream_level Stdout = OUTPUT"
| "stream_level Stderr = OUTERR"

text \<open>
  Both \<open>tee_thread\<close> loops, in the order the lines reached the logger: every line is
  logged at its stream's level; the lines of stdout are also appended to \<open>out\<close>.
\<close>

fun tee_threads :: "env \<Rightarrow> (stream \<times> string) list \<Rightarrow> string list \<Rightarrow> string list action" where
  "tee_threads env [] out = ret out"
| "tee_threads env ((st, raw) # rest) out =
     seq (logging_log env (stream_level st) (tee_logged raw))
         (tee_threads env rest (case st of Stdout \<Rightarrow> out @ [tee_clean raw] | Stderr \<Rightarrow> out))"

text \<open>A new list object in the store.\<close>

definition new_list :: "string list \<Rightarrow> nat action" where
  "new_list xs s =
     (s\<lparr> heap := (heap s)(next_ref s := xs), next_ref := Suc (next_ref s) \<rparr>, Inr (next_ref s))"

definition modify_list :: "nat \<Rightarrow> (string list \<Rightarrow> string list) \<Rightarrow> unit action" where
  "modify_list r f s = (s\<lparr> heap := (heap s)(r := f (heap s r)) \<rparr>, Inr ())"

definition str_CalledProcessError :: "env \<Rightarrow> int \<Rightarrow> string \<Rightarrow> string" where
  "str_CalledProcessError env returncode cmd =
     (if returncode < 0 then
        (case signal_repr env (- returncode) of
           Some name \<Rightarrow> ''Command '' @ [CHR 0x27] @ cmd @ [CHR 0x27] @ '' died with '' @ name @ ''.''
         | None \<Rightarrow> ''Command '' @ [CHR 0x27] @ cmd @ [CHR 0x27] @ '' died with unknown signal '' @
                    str_int (- returncode) @ ''.'')
      else ''Command '' @ [CHR 0x27] @ cmd @ [CHR 0x27] @ '' returned non-zero exit status '' @
           str_int returncode @ ''.'')"

text \<open>
  \<open>args\<close> is a reference into the store, or \<open>None\<close> for the default, which makes a new
  empty list. The list is changed in place before the process is started.
\<close>

definition snapraid_command ::
  "env \<Rightarrow> config \<Rightarrow> string \<Rightarrow> nat option \<Rightarrow> bool \<Rightarrow> string list action" where
  "snapraid_command env cfg command args ignore_errors =
     then_do (case args of None \<Rightarrow> new_list [] | Some r \<Rightarrow> ret r) (\<lambda>r.
     seq (modify_list r (list_insert 0 (snapraid_executable cfg)))
    (seq (modify_list r (list_insert 1 command))
    (seq (modify_list r (\<lambda>xs. xs @ [''--conf'', snapraid_config cfg, ''--verbose'']))
         (\<lambda>s.
            (let argv = heap s r;
                 s1 = s\<lparr> trace := trace s @ [Spawn argv] \<rparr>
             in case popen env argv of
                  NotFound \<Rightarrow>
                    seq (logging_error env
                           (''The configured snapraid executable \"'' @ snapraid_executable cfg @
                            ''\" does not exist or is not a file''))
                   (seq (finish env cfg False)
                        (raise (AttributeError ''stdout''))) s1
                | PopenError msg \<Rightarrow> (s1, Inl (OSError msg))
                | Exited r lines \<Rightarrow>
                    then_do (tee_threads env lines []) (\<lambda>out.
                      if r = 0 \<or> ignore_errors then ret out
                      else raise (CalledProcessError r (''snapraid '' @ command))) s1)))))"

section \<open>\<open>run\<close> and \<open>main\<close> (lines 246 to 313)\<close>

text \<open>\<open>d[k]\<close> on a dictionary.\<close>

definition getitem :: "(string \<rightharpoonup> int) \<Rightarrow> string \<Rightarrow> int action" where
  "getitem d k = (case d k of None \<Rightarrow> raise (KeyError k) | Some v \<Rightarrow> ret v)"

fun str_exn :: "env \<Rightarrow> exn \<Rightarrow> string" where
  "str_exn env (CalledProcessError r cmd) = str_CalledProcessError env r cmd"
| "str_exn env (OSError msg) = msg"
| "str_exn env (SMTPException msg) = msg"
| "str_exn env (AttributeError msg) = msg"
| "str_exn env (KeyError msg) = [CHR 0x27] @ msg @ [CHR 0x27]"
| "str_exn env (SystemExit c) = str_int c"

definition run_touch :: "env \<Rightarrow> config \<Rightarrow> unit action" where
  "run_touch env cfg =
     (if snapraid_touch cfg
      then seq (logging_info env (banner 30))
          (seq (logging_info env ''Running touch...'')
          (seq (logging_info env (banner 30))
          (seq (snapraid_command env cfg ''touch'' None False) (ret ()))))
      else ret ())"

definition run_sync :: "env \<Rightarrow> config \<Rightarrow> unit action" where
  "run_sync env cfg =
     seq (logging_info env (banner 30))
    (seq (logging_info env ''Running sync...'')
    (seq (logging_info env (banner 30))
         (try_except (seq (snapraid_command env cfg ''sync'' None False) (ret ()))
            is_CalledProcessError
            (\<lambda>e. seq (logging_error env (str_exn env e)) (finish env cfg False)))))"

definition run_scrub :: "env \<Rightarrow> config \<Rightarrow> unit action" where
  "run_scrub env cfg =
     (if scrub_enabled cfg
      then seq (logging_info env (banner 30))
          (seq (logging_info env ''Running scrub...'')
          (seq (logging_info env (banner 30))
               (try_except
                  (then_do (new_list [''--percentage'', str_int (scrub_percentage cfg),
                                      ''--older-than'', str_int (scrub_older_than cfg)]) (\<lambda>r.
                   seq (snapraid_command env cfg ''scrub'' (Some r) False) (ret ())))
                  is_CalledProcessError
                  (\<lambda>e. seq (logging_error env (str_exn env e)) (finish env cfg False)))))
      else ret ())"

text \<open>
  Lines 273 to 297: the diff output is classified, the counts are logged, and the gate
  decides between the abort, the skip and the sync.
\<close>

definition run_gate :: "env \<Rightarrow> config \<Rightarrow> string list \<Rightarrow> unit action" where
  "run_gate env cfg diff_out =
     (let diff_results = classify diff_out in
      then_do (getitem diff_results ''add'') (\<lambda>add.
      then_do (getitem diff_results ''remove'') (\<lambda>remove.
      then_do (getitem diff_results ''move'') (\<lambda>move.
      then_do (getitem diff_results ''update'') (\<lambda>update.
      seq (logging_info env (replicate 60 (CHR ''*'')))
     (seq (logging_info env (''Diff results: '' @ str_int add @ '' added,  '' @ str_int remove @
                             '' removed,  '' @ str_int move @ '' moved,  '' @ str_int update @
                             '' modified''))
     (seq (logging_info env (replicate 60 (CHR ''*'')))
     (seq (if 0 \<le> snapraid_deletethreshold cfg \<and> snapraid_deletethreshold cfg < remove
           then seq (logging_error env (''Deleted files exceed delete threshold of '' @
                                        str_int (snapraid_deletethreshold cfg) @ '', aborting''))
                    (finish env cfg False)
           else ret ())
          (if remove + add + move + update = 0
           then logging_info env ''No changes detected, no sync required''
           else run_sync env cfg)))))))))"

text \<open>Lines 254 to 313, with the pieces above in their places.\<close>

definition run :: "env \<Rightarrow> config \<Rightarrow> unit action" where
  "run env cfg =
     seq (logging_info env (banner 60))
    (seq (logging_info env ''Run started'')
    (seq (logging_info env (banner 60))
    (seq (if \<not> isfile env (snapraid_config cfg)
          then seq (logging_error env (''Snapraid config does not exist at '' @ snapraid_config cfg))
                   (finish env cfg False)
          else ret ())
    (seq (run_touch env cfg)
    (seq (logging_info env (banner 30))
    (seq (logging_info env ''Running diff...'')
    (seq (logging_info env (banner 30))
    (then_do (snapraid_command env cfg ''diff'' None True) (\<lambda>diff_out.
     seq (run_gate env cfg diff_out)
    (seq (run_scrub env cfg)
    (seq (logging_info env ''All done'')
         (finish env cfg True))))))))))))"

text \<open>
  Lines 246 to 250 of \<open>main\<close>: \<open>try: body except Exception: ...\<close>, and \<open>main\<close> with \<open>run()\<close>
  as the body. What \<open>main\<close> does before (arguments, \<open>load_config\<close>, \<open>setup_logger\<close>) comes
  first and ends the process with status 2 on failure, without \<open>finish\<close>.
\<close>

definition main_try :: "env \<Rightarrow> config \<Rightarrow> unit action \<Rightarrow> unit action" where
  "main_try env cfg body =
     try_except body is_Exception
       (\<lambda>e. seq (logging_exception env ''Run failed due to unhandled exception:'' e)
                 (finish env cfg False))"

definition main :: "env \<Rightarrow> config \<Rightarrow> unit action" where
  "main env cfg = main_try env cfg (run env cfg)"

section \<open>Observations on a trace and the specification's phase machine\<close>

text \<open>
  What a run is observed to do: it starts a subcommand, it logs the abort on the delete
  threshold (the error record of lines 281 to 283), it calls \<open>finish\<close>. Every other event
  is no mark.
\<close>

datatype mark = Started string | ThresholdAbort | Finished bool

fun starts_with :: "'a list \<Rightarrow> 'a list \<Rightarrow> bool" where
  "starts_with [] xs = True"
| "starts_with (p # ps) [] = False"
| "starts_with (p # ps) (x # xs) = (p = x \<and> starts_with ps xs)"

fun observe :: "event \<Rightarrow> mark list" where
  "observe (Spawn (exe # command # rest)) = [Started command]"
| "observe (Spawn argv) = []"
| "observe (Finish b) = [Finished b]"
| "observe (Log level msg) =
     (if level = ERROR \<and> starts_with ''Deleted files exceed delete threshold of '' msg
      then [ThresholdAbort] else [])"
| "observe (SendMail m) = []"

definition observed :: "event list \<Rightarrow> mark list" where
  "observed tr = concat (map observe tr)"

text \<open>The subcommands started, in order, and the arguments \<open>finish\<close> was called with.\<close>

fun started_of :: "mark \<Rightarrow> string list" where
  "started_of (Started command) = [command]"
| "started_of m = []"

fun finished_of :: "mark \<Rightarrow> bool list" where
  "finished_of (Finished b) = [b]"
| "finished_of m = []"

definition spawned :: "event list \<Rightarrow> string list" where
  "spawned tr = concat (map started_of (observed tr))"

definition finish_calls :: "event list \<Rightarrow> bool list" where
  "finish_calls tr = concat (map finished_of (observed tr))"

text \<open>The bodies of the mails handed to the SMTP transport, in order.\<close>

fun sent_bodies :: "event list \<Rightarrow> string list" where
  "sent_bodies [] = []"
| "sent_bodies (SendMail m # es) = mail_body m # sent_bodies es"
| "sent_bodies (e # es) = sent_bodies es"

text \<open>The argument vector \<open>snapraid_command\<close> builds from the extra arguments.\<close>

definition command_argv :: "config \<Rightarrow> string \<Rightarrow> string list \<Rightarrow> string list" where
  "command_argv cfg command extra =
     [snapraid_executable cfg, command] @ extra @ [''--conf'', snapraid_config cfg, ''--verbose'']"

definition scrub_args :: "config \<Rightarrow> string list" where
  "scrub_args cfg = [''--percentage'', str_int (scrub_percentage cfg),
                     ''--older-than'', str_int (scrub_older_than cfg)]"

text \<open>The lines \<open>snapraid_command\<close> returns for a process that ran.\<close>

definition captured :: "(stream \<times> string) list \<Rightarrow> string list" where
  "captured lines = map (\<lambda>(st, raw). tee_clean raw) (filter (\<lambda>(st, raw). st = Stdout) lines)"

text \<open>
  The specification's phase machine (sections 4.4 and 7), read on the outcomes of the
  phases: a phase succeeds when its process ran and exited with status 0; the run has no
  fatal condition when the external configuration file exists, Touch (if configured)
  succeeds, Diff could be started, the delete threshold is not exceeded, Sync (if any
  count is non-zero) succeeds, and Scrub (if enabled) succeeds.
\<close>

fun phase_ok :: "proc_outcome \<Rightarrow> bool" where
  "phase_ok (Exited n lines) = (n = 0)"
| "phase_ok oc = False"

definition count_of :: "(string \<rightharpoonup> int) \<Rightarrow> string \<Rightarrow> int" where
  "count_of d k = (case d k of None \<Rightarrow> 0 | Some v \<Rightarrow> v)"

definition threshold_exceeded :: "config \<Rightarrow> (string \<rightharpoonup> int) \<Rightarrow> bool" where
  "threshold_exceeded cfg d =
     (0 \<le> snapraid_deletethreshold cfg \<and> snapraid_deletethreshold cfg < count_of d ''remove'')"

definition all_zero :: "(string \<rightharpoonup> int) \<Rightarrow> bool" where
  "all_zero d =
     (count_of d ''add'' = 0 \<and> count_of d ''remove'' = 0 \<and> count_of d ''move'' = 0 \<and>
      count_of d ''update'' = 0)"

definition spec_no_fatal :: "env \<Rightarrow> config \<Rightarrow> bool" where
  "spec_no_fatal env cfg =
     (isfile env (snapraid_config cfg) \<and>
      (snapraid_touch cfg \<longrightarrow> phase_ok (popen env (command_argv cfg ''touch'' []))) \<and>
      (case popen env (command_argv cfg ''diff'' []) of
         Exited n lines \<Rightarrow>
           \<not> threshold_exceeded cfg (classify (captured lines)) \<and>
           (\<not> all_zero (classify (captured lines)) \<longrightarrow>
              phase_ok (popen env (command_argv cfg ''sync'' [])))
       | oc \<Rightarrow> False) \<and>
      (scrub_enabled cfg \<longrightarrow> phase_ok (popen env (command_argv cfg ''scrub'' (scrub_args cfg)))))"

text \<open>
  The same machine as the sequence of marks a run leaves: \<open>Start\<close>, \<open>Touch?\<close>, \<open>Diff\<close>,
  \<open>GateCheck\<close>, \<open>Sync?\<close>, \<open>Scrub?\<close>, \<open>Done\<close>, where every phase can go to \<open>Failed\<close>; both
  \<open>Done\<close> and \<open>Failed\<close> are the call of the Finalizer.
\<close>

definition spec_scrub :: "env \<Rightarrow> config \<Rightarrow> mark list" where
  "spec_scrub env cfg =
     (if scrub_enabled cfg
      then Started ''scrub'' #
           (if phase_ok (popen env (command_argv cfg ''scrub'' (scrub_args cfg)))
            then [Finished True] else [Finished False])
      else [Finished True])"

definition spec_gate :: "env \<Rightarrow> config \<Rightarrow> string list \<Rightarrow> mark list" where
  "spec_gate env cfg diff_out =
     (if threshold_exceeded cfg (classify diff_out) then [ThresholdAbort, Finished False]
      else if all_zero (classify diff_out) then spec_scrub env cfg
      else Started ''sync'' #
           (if phase_ok (popen env (command_argv cfg ''sync'' []))
            then spec_scrub env cfg else [Finished False]))"

definition spec_diff :: "env \<Rightarrow> config \<Rightarrow> mark list" where
  "spec_diff env cfg =
     Started ''diff'' #
     (case popen env (command_argv cfg ''diff'' []) of
        Exited n lines \<Rightarrow> spec_gate env cfg (captured lines)
      | oc \<Rightarrow> [Finished False])"

definition spec_marks :: "env \<Rightarrow> config \<Rightarrow> mark list" where
  "spec_marks env cfg =
     (if \<not> isfile env (snapraid_config cfg) then [Finished False]
      else if snapraid_touch cfg
      then Started ''touch'' #
           (if phase_ok (popen env (command_argv cfg ''touch'' []))
            then spec_diff env cfg else [Finished False])
      else spec_diff env cfg)"

text \<open>The exit status that goes with the call of the Finalizer that ends a mark sequence.\<close>

definition exit_code :: "mark list \<Rightarrow> int" where
  "exit_code ms = (if Finished True \<in> set ms then 0 else 1)"

section \<open>Example inputs\<close>

definition example_config :: config where
  "example_config =
     \<lparr> snapraid_executable = ''/usr/bin/snapraid'',
       snapraid_config = ''/etc/snapraid.conf'',
       snapraid_deletethreshold = 5,
       snapraid_touch = False,
       logging_file = ''/var/log/snapraid.log'',
       logging_maxsize = 5000,
       email_sendon = ''success,error'',
       email_subject = ''[SnapRAID] Status Report:'',
       email_from = ''runner@example.org'',
       email_to = ''admin@example.org'',
       email_short = True,
       email_maxsize = 500,
       smtp_host = ''smtp.example.org'',
       smtp_port = [],
       smtp_ssl = False,
       smtp_user = [],
       smtp_password = [],
       scrub_enabled = False,
       scrub_percentage = 22,
       scrub_older_than = 12 \<rparr>"

text \<open>A file system in which \<open>/var/log\<close> exists and every file can be opened.\<close>

definition example_fs :: filesystem where
  "example_fs =
     \<lparr> path_exists = (\<lambda>p. p = ''/var/log''),
       makedirs = (\<lambda>p. None),
       open_log = (\<lambda>p. None) \<rparr>"

definition example_diff_lines :: "(stream \<times> string) list" where
  "example_diff_lines = [(Stdout, ''add a''), (Stderr, ''WARNING! b''), (Stdout, ''remove c'')]"

definition six_removals :: "(stream \<times> string) list" where
  "six_removals =
     [(Stdout, ''remove a''), (Stdout, ''remove b''), (Stdout, ''remove c''),
      (Stdout, ''remove d''), (Stdout, ''remove e''), (Stdout, ''remove f'')]"

text \<open>
  An environment in which the external configuration exists, Diff exits with status 2
  after printing the given lines, Sync ends as given, every other subcommand exits with
  status 0, and the SMTP transport fails.
\<close>

definition example_env :: "(stream \<times> string) list \<Rightarrow> proc_outcome \<Rightarrow> env" where
  "example_env diff_lines sync_outcome =
     \<lparr> isfile = (\<lambda>path. True),
       popen = (\<lambda>argv. case argv of
                  exe # command # rest \<Rightarrow>
                    if command = ''diff'' then Exited 2 diff_lines
                    else if command = ''sync'' then sync_outcome
                    else Exited 0 []
                | short \<Rightarrow> NotFound),
       smtp_deliver = (\<lambda>m. Some ''Connection refused''),
       log_format = (\<lambda>level msg. msg),
       format_exc = (\<lambda>e. ''Traceback (most recent call last):''),
       signal_repr = (\<lambda>n. None) \<rparr>"



section \<open>The string primitives\<close>

lemma str_split_nonempty: "str_split sep s \<noteq> []"
  by (induction s) (auto split: list.splits)

lemma hd_str_split: "hd (str_split sep s) = takeWhile (\<lambda>c. c \<noteq> sep) s"
  by (induction s) (auto split: list.splits simp: str_split_nonempty)

lemma last_str_split_no_sep: "sep \<notin> set (last (str_split sep s))"
  by (induction s) (auto split: list.splits simp: str_split_nonempty)

lemma str_split_single: "str_split sep s = [a] \<Longrightarrow> sep \<notin> set s"
  by (induction s arbitrary: a) (auto split: list.splits if_splits simp: str_split_nonempty)

lemma str_split_no_sep: "sep \<notin> set s \<Longrightarrow> str_split sep s = [s]"
  by (induction s) auto

lemma last_str_split_suffix:
  "sep \<in> set s \<Longrightarrow> \<exists>pre. s = pre @ sep # last (str_split sep s)"
proof (induction s)
  case Nil
  then show ?case by simp
next
  case (Cons c cs)
  show ?case
  proof (cases "sep \<in> set cs")
    case True
    then obtain pre where p: "cs = pre @ sep # last (str_split sep cs)"
      using Cons.IH by blast
    have "last (str_split sep (c # cs)) = last (str_split sep cs)"
      using str_split_nonempty[of sep cs] str_split_single[of sep cs] True
      by (cases "str_split sep cs") (auto split: list.splits)
    with p have "c # cs = (c # pre) @ sep # last (str_split sep (c # cs))" by simp
    then show ?thesis by blast
  next
    case False
    with Cons.prems have c: "c = sep" by simp
    have "str_split sep cs = [cs]" using False by (rule str_split_no_sep)
    with c have "c # cs = [] @ sep # last (str_split sep (c # cs))" by simp
    then show ?thesis by blast
  qed
qed

section \<open>Diff classifier\<close>

lemma count_list_map_filter: "count_list (map f xs) k = length (filter (\<lambda>x. f x = k) xs)"
  by (induction xs) auto

lemma classify_lookup:
  "k \<in> set diff_keys \<Longrightarrow>
   classify ls k = Some (int (length (filter (\<lambda>l. takeWhile (\<lambda>c. c \<noteq> SPC) l = k) ls)))"
  by (auto simp: classify_def diff_keys_def Counter_def count_list_map_filter hd_str_split)

lemma classify_dom: "dom (classify ls) = set diff_keys"
  by (auto simp: classify_def diff_keys_def Let_def dom_def)

lemma classify_outside: "k \<notin> set diff_keys \<Longrightarrow> classify ls k = None"
  by (auto simp: classify_def diff_keys_def Let_def)

lemma classify_ignores:
  "takeWhile (\<lambda>c. c \<noteq> SPC) l \<notin> set diff_keys \<Longrightarrow> classify (xs @ l # ys) = classify (xs @ ys)"
proof
  fix k
  assume a: "takeWhile (\<lambda>c. c \<noteq> SPC) l \<notin> set diff_keys"
  show "classify (xs @ l # ys) k = classify (xs @ ys) k"
  proof (cases "k \<in> set diff_keys")
    case True
    with a have "takeWhile (\<lambda>c. c \<noteq> SPC) l \<noteq> k" by auto
    with True show ?thesis by (simp add: classify_lookup)
  next
    case False
    then show ?thesis by (simp add: classify_outside)
  qed
qed

lemma classify_empty:
  "classify [] = [''add'' \<mapsto> 0, ''remove'' \<mapsto> 0, ''move'' \<mapsto> 0, ''update'' \<mapsto> 0]"
  by (rule ext) (simp add: classify_def diff_keys_def Counter_def)

lemma classify_example:
  "classify [''add a'', ''add b'', ''remove c''] =
   [''add'' \<mapsto> 2, ''remove'' \<mapsto> 1, ''move'' \<mapsto> 0, ''update'' \<mapsto> 0]"
  by (rule ext) (simp add: classify_def diff_keys_def Counter_def SPC_def)

text \<open>
  C4, as stated, fails: the category is not the first whitespace-delimited token. The code
  splits at the space character only (\<open>line.split(" ")\<close>), so in the line \<open>add<TAB>x\<close> the
  first whitespace-delimited token is \<open>add\<close>, yet the line is not counted as an \<open>add\<close>.
\<close>

theorem classify_whitespace_counterexample:
  "spec_first_token (''add'' @ [TAB] @ ''x'') = Some ''add'' \<and>
   spec_classify [''add'' @ [TAB] @ ''x''] ''add'' = Some 1 \<and>
   classify [''add'' @ [TAB] @ ''x''] ''add'' = Some 0"
  by (simp add: spec_first_token_def spec_classify_def classify_def diff_keys_def Counter_def
      SPC_def TAB_def isspace_def)

text \<open>
  C4, amended: for every list of diff output lines, the classifier takes the text before
  the first space character of each line (the whole line when it has no space) as its
  category and counts the lines per category; the result has exactly the four keys
  \<open>add\<close>, \<open>remove\<close>, \<open>move\<close>, \<open>update\<close>, zero when no line has that category; a line whose
  category is outside that set changes no count, wherever it stands; \<open>classify []\<close> is all
  zero, and \<open>classify ["add a", "add b", "remove c"]\<close> is
  \<open>{add: 2, remove: 1, move: 0, update: 0}\<close>.
\<close>

theorem classify_counts:
  "dom (classify ls) = {''add'', ''remove'', ''move'', ''update''} \<and>
   (\<forall>k \<in> {''add'', ''remove'', ''move'', ''update''}.
      classify ls k = Some (int (length (filter (\<lambda>line. takeWhile (\<lambda>c. c \<noteq> SPC) line = k) ls)))) \<and>
   (takeWhile (\<lambda>c. c \<noteq> SPC) l \<notin> {''add'', ''remove'', ''move'', ''update''} \<longrightarrow>
      classify (xs @ l # ys) = classify (xs @ ys)) \<and>
   classify [] = [''add'' \<mapsto> 0, ''remove'' \<mapsto> 0, ''move'' \<mapsto> 0, ''update'' \<mapsto> 0] \<and>
   classify [''add a'', ''add b'', ''remove c''] =
     [''add'' \<mapsto> 2, ''remove'' \<mapsto> 1, ''move'' \<mapsto> 0, ''update'' \<mapsto> 0]"
proof -
  have keys: "set diff_keys = {''add'', ''remove'', ''move'', ''update''}"
    by (auto simp: diff_keys_def)
  show ?thesis
    using classify_dom[of ls] classify_lookup[of _ ls] classify_ignores[of l xs ys]
      classify_empty classify_example
    unfolding keys by blast
qed

theorem classify_counts_witness:
  "takeWhile (\<lambda>c. c \<noteq> SPC) ''Loading state...'' \<notin> {''add'', ''remove'', ''move'', ''update''} \<and>
   classify [''add a'', ''Loading state...'', ''remove c''] ''add'' = Some 1 \<and>
   classify [''add a'', ''Loading state...'', ''remove c''] ''remove'' = Some 1 \<and>
   classify [''add a'', ''Loading state...'', ''remove c''] ''move'' = Some 0 \<and>
   classify [''add a'', ''Loading state...'', ''remove c''] ''update'' = Some 0 \<and>
   classify ([''add a''] @ ''Loading state...'' # [''remove c'']) =
     classify ([''add a''] @ [''remove c''])"
proof -
  note t = classify_counts[of "[''add a'', ''Loading state...'', ''remove c'']"
      "''Loading state...''" "[''add a'']" "[''remove c'']"]
  have h: "takeWhile (\<lambda>c. c \<noteq> SPC) ''Loading state...'' \<notin> {''add'', ''remove'', ''move'', ''update''}"
    by (simp add: SPC_def)
  have b: "\<forall>k \<in> {''add'', ''remove'', ''move'', ''update''}.
      classify [''add a'', ''Loading state...'', ''remove c''] k =
      Some (int (length (filter (\<lambda>line. takeWhile (\<lambda>c. c \<noteq> SPC) line = k)
                           [''add a'', ''Loading state...'', ''remove c''])))"
    using t by blast
  have a: "classify [''add a'', ''Loading state...'', ''remove c''] ''add'' = Some 1"
    using b by (simp add: SPC_def)
  have r: "classify [''add a'', ''Loading state...'', ''remove c''] ''remove'' = Some 1"
    using b by (simp add: SPC_def)
  have m: "classify [''add a'', ''Loading state...'', ''remove c''] ''move'' = Some 0"
    using b by (simp add: SPC_def)
  have u: "classify [''add a'', ''Loading state...'', ''remove c''] ''update'' = Some 0"
    using b by (simp add: SPC_def)
  have e: "classify ([''add a''] @ ''Loading state...'' # [''remove c'']) =
           classify ([''add a''] @ [''remove c''])"
    using t h by blast
  show ?thesis
    by (intro conjI h a r m u e)
qed

section \<open>Stream Tee\<close>

text \<open>
  C9, as stated, fails: the line is stripped of surrounding whitespace before the carriage
  returns are looked at, and a trailing carriage return is whitespace. In the line
  \<open>10%<CR>20%<CR><LF>\<close> the text following the last carriage return is the line feed alone,
  yet \<open>20%\<close> is what is logged and accumulated.
\<close>

theorem tee_trailing_cr_counterexample:
  "CR \<in> set (''10%'' @ [CR] @ ''20%'' @ [CR, LF]) \<and>
   last (str_split CR (''10%'' @ [CR] @ ''20%'' @ [CR, LF])) = [LF] \<and>
   tee_clean (''10%'' @ [CR] @ ''20%'' @ [CR, LF]) = ''20%'' \<and>
   tee_logged (''10%'' @ [CR] @ ''20%'' @ [CR, LF]) = ''20%''"
  by (simp add: tee_clean_def tee_logged_def str_strip_def isspace_def CR_def LF_def)

text \<open>
  C9, amended: for every input line read by the Stream Tee, take the line with its
  leading and trailing whitespace (carriage returns and line feeds included) stripped;
  when that still contains a carriage return, the accumulated line is exactly the text
  following its last carriage return, and the logged line is that text stripped of
  surrounding whitespace.
\<close>

theorem tee_clean_last_segment:
  assumes "CR \<in> set (str_strip raw)"
  shows "(\<exists>pre. str_strip raw = pre @ CR # tee_clean raw) \<and>
         CR \<notin> set (tee_clean raw) \<and>
         tee_logged raw = str_strip (tee_clean raw)"
proof -
  have c: "tee_clean raw = last (str_split CR (str_strip raw))"
    using assms by (simp add: tee_clean_def)
  show ?thesis
    using last_str_split_suffix[OF assms] last_str_split_no_sep[of CR "str_strip raw"]
    by (simp add: c tee_logged_def)
qed

theorem tee_clean_last_segment_witness:
  "CR \<in> set (str_strip (''10%'' @ [CR] @ '' 20%'' @ [LF])) \<and>
   (\<exists>pre. str_strip (''10%'' @ [CR] @ '' 20%'' @ [LF]) = pre @ CR # '' 20%'') \<and>
   tee_clean (''10%'' @ [CR] @ '' 20%'' @ [LF]) = '' 20%'' \<and>
   tee_logged (''10%'' @ [CR] @ '' 20%'' @ [LF]) = ''20%''"
proof -
  have h: "CR \<in> set (str_strip (''10%'' @ [CR] @ '' 20%'' @ [LF]))"
    by (simp add: str_strip_def isspace_def CR_def LF_def)
  have v: "tee_clean (''10%'' @ [CR] @ '' 20%'' @ [LF]) = '' 20%''"
    by (simp add: tee_clean_def str_strip_def isspace_def CR_def LF_def)
  have w: "str_strip '' 20%'' = ''20%''"
    by (simp add: str_strip_def isspace_def)
  show ?thesis
    using tee_clean_last_segment[OF h] h v w by simp
qed

section \<open>Logger setup\<close>

lemma setup_logger_handlers:
  "setup_logger fs cfg = Inr hs \<Longrightarrow> hs = logger_handlers cfg"
  by (auto simp: setup_logger_def Let_def split: if_splits option.splits)

text \<open>
  C8: for every configured logging \<open>maxsize\<close>, the rotation cap computed by
  \<open>setup_logger\<close> is \<open>min(maxsize, 0) * 1024\<close>: zero for every non-negative value. Whenever
  \<open>setup_logger\<close> returns with a log file configured, the rotating file handler it added
  has that cap as \<open>maxBytes\<close>, and no rotating file handler has another cap.
\<close>

theorem max_log_size_clamp:
  "max_log_size cfg = min (logging_maxsize cfg) 0 * 1024 \<and>
   (0 \<le> logging_maxsize cfg \<longrightarrow> max_log_size cfg = 0) \<and>
   (setup_logger fs cfg = Inr hs \<longrightarrow>
      (logging_file cfg \<noteq> [] \<longrightarrow>
         RotatingFileHandler (logging_file cfg) (min (logging_maxsize cfg) 0 * 1024) 9 \<in> set hs) \<and>
      (\<forall>f m b. RotatingFileHandler f m b \<in> set hs \<longrightarrow> m = min (logging_maxsize cfg) 0 * 1024))"
proof -
  have "setup_logger fs cfg = Inr hs \<Longrightarrow> hs = logger_handlers cfg"
    by (rule setup_logger_handlers)
  then show ?thesis
    by (auto simp: max_log_size_def logger_handlers_def split: if_splits)
qed

theorem max_log_size_clamp_witness:
  "logging_maxsize example_config = 5000 \<and>
   max_log_size example_config = 0 \<and>
   setup_logger example_fs example_config =
     Inr [ConsoleHandler, RotatingFileHandler ''/var/log/snapraid.log'' 0 9, EmailHandler INFO] \<and>
   RotatingFileHandler ''/var/log/snapraid.log'' 0 9 \<in>
     set [ConsoleHandler, RotatingFileHandler ''/var/log/snapraid.log'' 0 9, EmailHandler INFO] \<and>
   setup_logger example_fs (example_config\<lparr>logging_file := ''runner.log''\<rparr>) =
     Inl (OSError ''[Errno 2] No such file or directory: '')"
proof -
  have s: "setup_logger example_fs example_config =
     Inr [ConsoleHandler, RotatingFileHandler ''/var/log/snapraid.log'' 0 9, EmailHandler INFO]"
    by (simp add: setup_logger_def logger_handlers_def max_log_size_def dirname_def
        os_path_exists_def os_makedirs_def example_fs_def example_config_def Let_def)
  have e: "setup_logger example_fs (example_config\<lparr>logging_file := ''runner.log''\<rparr>) =
     Inl (OSError ''[Errno 2] No such file or directory: '')"
    by (simp add: setup_logger_def dirname_def os_path_exists_def os_makedirs_def
        example_fs_def example_config_def Let_def)
  have m: "logging_maxsize example_config = 5000" "logging_file example_config \<noteq> []"
    by (simp_all add: example_config_def)
  show ?thesis
    using max_log_size_clamp[of example_config example_fs
        "[ConsoleHandler, RotatingFileHandler ''/var/log/snapraid.log'' 0 9, EmailHandler INFO]"]
      s e m
    by simp
qed

section \<open>Log shortening\<close>

lemma slice_index_neg:
  assumes "0 < h"
  shows "slice_index n (- h) = n - nat h"
proof -
  have "slice_index n (- h) = nat (max 0 (int n - h))"
    using assms by (simp add: slice_index_def)
  also have "\<dots> = n - nat h"
    using assms by linarith
  finally show ?thesis .
qed

lemma slice_index_pos: "0 \<le> h \<Longrightarrow> slice_index n h = min (nat h) n"
  unfolding slice_index_def by simp

lemma slice_head: "0 \<le> h \<Longrightarrow> slice xs None (Some h) = take (nat h) xs"
  by (simp add: slice_def slice_index_pos Let_def min_def)

lemma slice_tail: "0 < h \<Longrightarrow> slice xs (Some (- h)) None = drop (length xs - nat h) xs"
  by (simp add: slice_def slice_index_neg Let_def)

lemma slice_middle:
  assumes h: "0 < h" and l: "2 * h \<le> int (length xs)"
  shows "slice xs (Some h) (Some (- h)) = take (length xs - 2 * nat h) (drop (nat h) xs)"
proof -
  have le: "nat h \<le> length xs" using h l by linarith
  have a: "slice_index (length xs) h = nat h"
    using h le by (simp add: slice_index_pos)
  have b: "slice_index (length xs) (- h) = length xs - nat h"
    using h by (rule slice_index_neg)
  have c: "length xs - nat h - nat h = length xs - 2 * nat h" by simp
  show ?thesis by (simp add: slice_def a b Let_def mult_2)
qed

lemma shorten_log_cut:
  assumes k: "0 < k" and big: "k * 1024 < int (length log)"
  shows "shorten_log k log =
           shorten_note @ take (nat (k * 512)) log @
           shorten_marker (int (count_list (take (length log - 2 * nat (k * 512)) (drop (nat (k * 512)) log)) LF)) @
           drop (length log - nat (k * 512)) log"
proof -
  have d1: "k * 1024 div 2 = k * 512" by simp
  have d2: "(- (k * 1024)) div 2 = - (k * 512)" by simp
  have p: "0 < k * 512" using k by simp
  have q: "2 * (k * 512) \<le> int (length log)" using big by simp
  show ?thesis
    using k big
    by (simp add: shorten_log_def Let_def d1 d2 str_count_def
        slice_head[of "k * 512"] slice_tail[OF p] slice_middle[OF p q])
qed

lemma take_concat_uniform:
  "\<forall>l \<in> set ls. length l = n \<Longrightarrow> take (m * n) (concat ls) = concat (take m ls)"
proof (induction ls arbitrary: m)
  case Nil
  then show ?case by simp
next
  case (Cons a ls)
  then show ?case by (cases m) auto
qed

lemma drop_concat_uniform:
  "\<forall>l \<in> set ls. length l = n \<Longrightarrow> drop (m * n) (concat ls) = concat (drop m ls)"
proof (induction ls arbitrary: m)
  case Nil
  then show ?case by simp
next
  case (Cons a ls)
  then show ?case by (cases m) auto
qed

lemma length_concat_uniform:
  "\<forall>l \<in> set ls. length l = n \<Longrightarrow> length (concat ls) = length ls * n"
  by (induction ls) auto

lemma count_list_append: "count_list (xs @ ys) c = count_list xs c + count_list ys c"
  by (induction xs) auto

lemma count_concat_one:
  "\<forall>l \<in> set ls. count_list l c = 1 \<Longrightarrow> count_list (concat ls) c = length ls"
  by (induction ls) (auto simp: count_list_append)

lemma shorten_uniform:
  assumes len: "length ls = 10000"
    and lines: "\<forall>l \<in> set ls. length l = 256 \<and> count_list l LF = 1"
  shows "shorten_log 25 (concat ls) =
           shorten_note @ concat (take 50 ls) @ shorten_marker 9900 @ concat (drop 9950 ls)"
proof -
  have u: "\<forall>l \<in> set ls. length l = 256" using lines by blast
  have L: "length (concat ls) = 2560000"
    using length_concat_uniform[OF u] len by simp
  have big: "(25::int) * 1024 < int (length (concat ls))" by (simp add: L)
  have hd: "take 12800 (concat ls) = concat (take 50 ls)"
    using take_concat_uniform[OF u, of 50] by simp
  have tl: "drop 2547200 (concat ls) = concat (drop 9950 ls)"
    using drop_concat_uniform[OF u, of 9950] by simp
  have u': "\<forall>l \<in> set (drop 50 ls). length l = 256"
    using u by (meson in_set_dropD)
  have mid: "take 2534400 (drop 12800 (concat ls)) = concat (take 9900 (drop 50 ls))"
    using drop_concat_uniform[OF u, of 50] take_concat_uniform[OF u', of 9900] by simp
  have one: "\<forall>l \<in> set (take 9900 (drop 50 ls)). count_list l LF = 1"
    using lines by (meson in_set_dropD in_set_takeD)
  have cnt: "count_list (take 2534400 (drop 12800 (concat ls))) LF = 9900"
    using count_concat_one[OF one] len by (simp add: mid)
  show ?thesis
    using shorten_log_cut[of 25 "concat ls", OF _ big]
    by (simp add: L hd tl cnt)
qed

lemma str_int_9900: "str_int 9900 = ''9900''"
  by (simp add: str_int_def str_nat.simps digit_char_def)

lemma marker9900: "shorten_marker 9900 =
   ''[...]'' @ [LF, LF, LF] @ '' --- LOG WAS TOO BIG - 9900 LINES REMOVED --'' @ [LF, LF, LF] @ ''[...]''"
  by (simp add: shorten_marker_def str_int_9900)


lemma shorten_log_middle:
  "(0 < k \<and> k * 1024 < int (length log) \<longrightarrow>
      email_body success k log =
        (if success then ''SnapRAID job completed successfully:'' @ [LF, LF, LF]
         else ''Error during SnapRAID job:'' @ [LF, LF, LF]) @
        shorten_note @ take (nat (k * 512)) log @
        shorten_marker (int (count_list
           (take (length log - 2 * nat (k * 512)) (drop (nat (k * 512)) log)) LF)) @
        drop (length log - nat (k * 512)) log \<and>
      length (take (nat (k * 512)) log) = length (drop (length log - nat (k * 512)) log) \<and>
      log = take (nat (k * 512)) log @
            take (length log - 2 * nat (k * 512)) (drop (nat (k * 512)) log) @
            drop (length log - nat (k * 512)) log) \<and>
   (length ls = 10000 \<and> (\<forall>l \<in> set ls. length l = 256 \<and> count_list l LF = 1) \<longrightarrow>
      shorten_log 25 (concat ls) =
        shorten_note @ concat (take 50 ls) @
        (''[...]'' @ [LF, LF, LF] @ '' --- LOG WAS TOO BIG - 9900 LINES REMOVED --'' @
         [LF, LF, LF] @ ''[...]'') @
        concat (drop 9950 ls))"
proof (intro conjI impI)
  assume a: "0 < k \<and> k * 1024 < int (length log)"
  then have k: "0 < k" and big: "k * 1024 < int (length log)" by simp_all
  show "email_body success k log =
        (if success then ''SnapRAID job completed successfully:'' @ [LF, LF, LF]
         else ''Error during SnapRAID job:'' @ [LF, LF, LF]) @
        shorten_note @ take (nat (k * 512)) log @
        shorten_marker (int (count_list
           (take (length log - 2 * nat (k * 512)) (drop (nat (k * 512)) log)) LF)) @
        drop (length log - nat (k * 512)) log"
    by (simp add: email_body_def shorten_log_cut[OF k big])
  have le: "2 * nat (k * 512) \<le> length log" using k big by linarith
  show "length (take (nat (k * 512)) log) = length (drop (length log - nat (k * 512)) log)"
    using le by simp
  have "take (length log - 2 * nat (k * 512)) (drop (nat (k * 512)) log) @
        drop (length log - nat (k * 512)) log = drop (nat (k * 512)) log"
  proof -
    have e: "length log - nat (k * 512) = (length log - 2 * nat (k * 512)) + nat (k * 512)"
      using le by simp
    show ?thesis
      unfolding e
      using append_take_drop_id[of "length log - 2 * nat (k * 512)" "drop (nat (k * 512)) log"]
      by simp
  qed
  then show "log = take (nat (k * 512)) log @
            take (length log - 2 * nat (k * 512)) (drop (nat (k * 512)) log) @
            drop (length log - nat (k * 512)) log"
    by simp
next
  assume "length ls = 10000 \<and> (\<forall>l \<in> set ls. length l = 256 \<and> count_list l LF = 1)"
  then show "shorten_log 25 (concat ls) =
        shorten_note @ concat (take 50 ls) @
        (''[...]'' @ [LF, LF, LF] @ '' --- LOG WAS TOO BIG - 9900 LINES REMOVED --'' @
         [LF, LF, LF] @ ''[...]'') @
        concat (drop 9950 ls)"
    using shorten_uniform[of ls] marker9900 by simp
qed

lemma count_list_replicate: "count_list (replicate n x) y = (if x = y then n else 0)"
  by (induction n) auto



section \<open>The effects of the actions\<close>

named_theorems steps

lemma observed_append: "observed (xs @ ys) = observed xs @ observed ys"
  by (simp add: observed_def)

lemma observed_Nil: "observed [] = []"
  by (simp add: observed_def)

lemma observed_single: "observed [e] = observe e"
  by (simp add: observed_def)

lemma then_do_cases [steps]:
  "then_do m f s =
     (case snd (m s) of Inl e \<Rightarrow> (fst (m s), Inl e) | Inr x \<Rightarrow> f x (fst (m s)))"
  by (cases "m s") (auto simp: then_do_def split: sum.splits)

lemma seq_cases [steps]:
  "seq m k s = (case snd (m s) of Inl e \<Rightarrow> (fst (m s), Inl e) | Inr x \<Rightarrow> k (fst (m s)))"
  by (simp add: seq_def then_do_cases)

lemma try_except_cases [steps]:
  "try_except m c h s =
     (case snd (m s) of
        Inl e \<Rightarrow> if c e then h e (fst (m s)) else (fst (m s), Inl e)
      | Inr x \<Rightarrow> (fst (m s), Inr x))"
  by (cases "m s") (auto simp: try_except_def split: sum.splits)

lemma ret_step [steps]: "snd (ret x s) = Inr x" "fst (ret x s) = s"
  by (simp_all add: ret_def)

lemma raise_step [steps]: "snd (raise e s) = Inl e" "fst (raise e s) = s"
  by (simp_all add: raise_def)

lemma emit_snd: "snd (emit env l m x s) = Inr ()"
  by (simp add: emit_def)

lemma emit_obs:
  "observed (trace (fst (emit env l m x s))) =
   observed (trace s) @ (if l < OUTPUT then [] else observe (Log l m))"
  by (simp add: emit_def observed_append observed_single)

lemma emit_heap: "heap (fst (emit env l m x s)) = heap s"
  by (simp add: emit_def)

lemma emit_next_ref: "next_ref (fst (emit env l m x s)) = next_ref s"
  by (simp add: emit_def)

lemma logging_snd [steps]:
  "snd (logging_log env l m s) = Inr ()"
  "snd (logging_info env m s) = Inr ()"
  "snd (logging_error env m s) = Inr ()"
  "snd (logging_exception env m e s) = Inr ()"
  by (simp_all add: logging_log_def logging_info_def logging_error_def logging_exception_def emit_snd)

lemma logging_heap [steps]:
  "heap (fst (logging_log env l m s)) = heap s"
  "heap (fst (logging_info env m s)) = heap s"
  "heap (fst (logging_error env m s)) = heap s"
  "heap (fst (logging_exception env m e s)) = heap s"
  by (simp_all add: logging_log_def logging_info_def logging_error_def logging_exception_def emit_heap)

lemma logging_next_ref [steps]:
  "next_ref (fst (logging_log env l m s)) = next_ref s"
  "next_ref (fst (logging_info env m s)) = next_ref s"
  "next_ref (fst (logging_error env m s)) = next_ref s"
  "next_ref (fst (logging_exception env m e s)) = next_ref s"
  by (simp_all add: logging_log_def logging_info_def logging_error_def logging_exception_def emit_next_ref)

lemma logging_info_obs [steps]:
  "observed (trace (fst (logging_info env m s))) = observed (trace s)"
  by (simp add: logging_info_def logging_log_def emit_obs INFO_def ERROR_def OUTPUT_def)

lemma logging_log_obs:
  "l \<noteq> ERROR \<Longrightarrow> observed (trace (fst (logging_log env l m s))) = observed (trace s)"
  by (simp add: logging_log_def emit_obs)

lemma logging_error_obs [steps]:
  "observed (trace (fst (logging_error env m s))) =
   observed (trace s) @
   (if starts_with ''Deleted files exceed delete threshold of '' m then [ThresholdAbort] else [])"
  by (simp add: logging_error_def logging_log_def emit_obs ERROR_def OUTPUT_def)

lemma logging_exception_obs [steps]:
  "observed (trace (fst (logging_exception env m e s))) =
   observed (trace s) @
   (if starts_with ''Deleted files exceed delete threshold of '' m then [ThresholdAbort] else [])"
  by (simp add: logging_exception_def emit_obs ERROR_def OUTPUT_def)

lemma send_email_result:
  "snd (send_email env cfg b s) = Inr () \<or>
   (\<exists>e. snd (send_email env cfg b s) = Inl e \<and> is_Exception e)"
  by (auto simp: send_email_def logging_snd Let_def split: option.splits)

lemma send_email_obs:
  "observed (trace (fst (send_email env cfg b s))) = observed (trace s)"
  by (auto simp: send_email_def logging_error_obs Let_def observed_append observed_single
      split: option.splits)

lemma send_email_heap:
  "heap (fst (send_email env cfg b s)) = heap s"
  by (auto simp: send_email_def logging_heap Let_def split: option.splits)

lemma send_email_next_ref:
  "next_ref (fst (send_email env cfg b s)) = next_ref s"
  by (auto simp: send_email_def logging_next_ref Let_def split: option.splits)


lemma try_send_snd:
  "snd (try_except (send_email env cfg b) is_Exception
          (\<lambda>e. logging_exception env ''Failed to send email'' e) s) = Inr ()"
  using send_email_result[of env cfg b s] by (auto simp: try_except_cases logging_snd)

lemma try_send_obs:
  "observed (trace (fst (try_except (send_email env cfg b) is_Exception
          (\<lambda>e. logging_exception env ''Failed to send email'' e) s))) = observed (trace s)"
  using send_email_result[of env cfg b s]
  by (auto simp: try_except_cases logging_exception_obs send_email_obs)

lemma try_send_heap:
  "heap (fst (try_except (send_email env cfg b) is_Exception
          (\<lambda>e. logging_exception env ''Failed to send email'' e) s)) = heap s"
  using send_email_result[of env cfg b s]
  by (auto simp: try_except_cases logging_heap send_email_heap)

lemma try_send_next_ref:
  "next_ref (fst (try_except (send_email env cfg b) is_Exception
          (\<lambda>e. logging_exception env ''Failed to send email'' e) s)) = next_ref s"
  using send_email_result[of env cfg b s]
  by (auto simp: try_except_cases logging_next_ref send_email_next_ref)

lemma starts_with_replicate_append:
  "0 < n \<Longrightarrow> p \<noteq> c \<Longrightarrow> \<not> starts_with (p # ps) (replicate n c @ xs)"
  by (cases n) simp_all

lemma starts_with_replicate:
  "0 < n \<Longrightarrow> p \<noteq> c \<Longrightarrow> \<not> starts_with (p # ps) (replicate n c)"
  by (cases n) simp_all

lemma banner_not_abort [steps]:
  "\<not> starts_with ''Deleted files exceed delete threshold of '' (banner 60)"
  "\<not> starts_with ''Deleted files exceed delete threshold of '' (banner 30)"
  "\<not> starts_with ''Deleted files exceed delete threshold of '' (banner 60 @ xs)"
  "\<not> starts_with ''Deleted files exceed delete threshold of '' (replicate 60 (CHR ''*''))"
  by (simp_all add: banner_def starts_with_replicate starts_with_replicate_append)

lemma finish_snd [steps]:
  "snd (finish env cfg b s) = Inl (SystemExit (if b then 0 else 1))"
  by (simp add: finish_def seq_cases try_send_snd logging_snd ret_step raise_step)

lemma finish_obs [steps]:
  "observed (trace (fst (finish env cfg b s))) = observed (trace s) @ [Finished b]"
  by (simp add: finish_def seq_cases try_send_snd try_send_obs logging_snd logging_info_obs
      logging_error_obs ret_step raise_step observed_append observed_single banner_not_abort)

lemma finish_heap [steps]:
  "heap (fst (finish env cfg b s)) = heap s"
  by (simp add: finish_def seq_cases try_send_snd try_send_heap logging_snd logging_heap
      ret_step raise_step)

lemma tee_threads_snd:
  "snd (tee_threads env lines out s) = Inr (out @ captured lines)"
  by (induction lines arbitrary: out s)
     (auto simp: ret_step seq_cases logging_snd captured_def split: stream.splits)

lemma tee_threads_obs:
  "observed (trace (fst (tee_threads env lines out s))) = observed (trace s)"
proof (induction lines arbitrary: out s)
  case Nil
  then show ?case by (simp add: ret_step)
next
  case (Cons a lines)
  obtain st raw where a: "a = (st, raw)" by (cases a)
  have "stream_level st \<noteq> ERROR"
    by (cases st) (simp_all add: OUTPUT_def OUTERR_def ERROR_def)
  then show ?case
    by (simp add: a seq_cases logging_snd Cons.IH logging_log_obs)
qed

lemma tee_threads_heap:
  "heap (fst (tee_threads env lines out s)) = heap s"
  by (induction lines arbitrary: out s) (auto simp: ret_step seq_cases logging_snd logging_heap)

lemma new_list_step [steps]:
  "snd (new_list xs s) = Inr (next_ref s)"
  "heap (fst (new_list xs s)) = (heap s)(next_ref s := xs)"
  "trace (fst (new_list xs s)) = trace s"
  by (simp_all add: new_list_def)

lemma modify_list_step:
  "snd (modify_list r f s) = Inr ()"
  "heap (fst (modify_list r f s)) = (heap s)(r := f (heap s r))"
  "trace (fst (modify_list r f s)) = trace s"
  by (simp_all add: modify_list_def)


lemma tee_threads_trace_heap:
  "heap (fst (tee_threads env lines out (s\<lparr>trace := t\<rparr>))) = heap s"
  by (simp add: tee_threads_heap)

lemma argv_built:
  "list_insert (Suc 0) command (list_insert 0 exe xs) @ ys = [exe, command] @ xs @ ys"
  by (simp add: list_insert_def)

lemma snapraid_command_snd:
  "snd (snapraid_command env cfg command args ig s) =
     (case popen env (command_argv cfg command (case args of None \<Rightarrow> [] | Some r \<Rightarrow> heap s r)) of
        NotFound \<Rightarrow> Inl (SystemExit 1)
      | PopenError msg \<Rightarrow> Inl (OSError msg)
      | Exited n lines \<Rightarrow>
          if n = 0 \<or> ig then Inr (captured lines)
          else Inl (CalledProcessError n (''snapraid '' @ command)))"
  by (cases args)
     (simp_all add: snapraid_command_def then_do_cases seq_cases new_list_step modify_list_step
        ret_step raise_step logging_snd finish_snd tee_threads_snd Let_def list_insert_def
        command_argv_def split: proc_outcome.splits)

lemma snapraid_command_obs:
  "observed (trace (fst (snapraid_command env cfg command args ig s))) =
     observed (trace s) @ Started command #
     (case popen env (command_argv cfg command (case args of None \<Rightarrow> [] | Some r \<Rightarrow> heap s r)) of
        NotFound \<Rightarrow> [Finished False]
      | PopenError msg \<Rightarrow> []
      | Exited n lines \<Rightarrow> [])"
  by (cases args)
     (simp_all add: snapraid_command_def then_do_cases seq_cases new_list_step modify_list_step
        ret_step raise_step logging_snd finish_snd finish_obs logging_error_obs tee_threads_snd
        tee_threads_obs observed_append observed_single Let_def list_insert_def
        command_argv_def split: proc_outcome.splits)

lemma snapraid_command_heap:
  "heap (fst (snapraid_command env cfg command args ig s)) =
     (heap s)((case args of None \<Rightarrow> next_ref s | Some r \<Rightarrow> r) :=
        command_argv cfg command (case args of None \<Rightarrow> [] | Some r \<Rightarrow> heap s r))"
  by (cases args)
     (simp_all add: snapraid_command_def then_do_cases seq_cases new_list_step modify_list_step
        ret_step raise_step logging_snd logging_heap finish_snd finish_heap tee_threads_snd
        tee_threads_heap Let_def list_insert_def
        command_argv_def split: proc_outcome.splits)

lemma count_of_classify:
  "k \<in> set diff_keys \<Longrightarrow>
   classify ls k = Some (count_of (classify ls) k) \<and> 0 \<le> count_of (classify ls) k"
  by (simp add: count_of_def classify_lookup)

lemma getitem_classify [steps]:
  "k \<in> set diff_keys \<Longrightarrow> snd (getitem (classify ls) k s) = Inr (count_of (classify ls) k)"
  "k \<in> set diff_keys \<Longrightarrow> fst (getitem (classify ls) k s) = s"
  using count_of_classify[of k ls] by (simp_all add: getitem_def ret_step)

lemma sum_zero_iff_all_zero:
  "(count_of (classify ls) ''remove'' + count_of (classify ls) ''add'' +
    count_of (classify ls) ''move'' + count_of (classify ls) ''update'' = 0) =
   all_zero (classify ls)"
proof -
  have "0 \<le> count_of (classify ls) ''remove''" "0 \<le> count_of (classify ls) ''add''"
    "0 \<le> count_of (classify ls) ''move''" "0 \<le> count_of (classify ls) ''update''"
    using count_of_classify[of _ ls] by (simp_all add: diff_keys_def)
  then show ?thesis unfolding all_zero_def by linarith
qed

lemma not_abort_CalledProcessError [steps]:
  "\<not> starts_with ''Deleted files exceed delete threshold of '' (str_CalledProcessError env n cmd)"
  by (simp add: str_CalledProcessError_def split: option.splits)

lemma run_touch_snd:
  "snd (run_touch env cfg s) =
     (if snapraid_touch cfg then
        (case popen env (command_argv cfg ''touch'' []) of
           NotFound \<Rightarrow> Inl (SystemExit 1)
         | PopenError msg \<Rightarrow> Inl (OSError msg)
         | Exited n lines \<Rightarrow> if n = 0 then Inr () else Inl (CalledProcessError n ''snapraid touch''))
      else Inr ())"
  by (simp add: run_touch_def steps snapraid_command_snd split: proc_outcome.splits)

lemma run_touch_obs:
  "observed (trace (fst (run_touch env cfg s))) =
     observed (trace s) @
     (if snapraid_touch cfg then
        Started ''touch'' #
        (case popen env (command_argv cfg ''touch'' []) of
           NotFound \<Rightarrow> [Finished False] | PopenError msg \<Rightarrow> [] | Exited n lines \<Rightarrow> [])
      else [])"
  by (simp add: run_touch_def steps snapraid_command_snd snapraid_command_obs
      split: proc_outcome.splits)

lemma run_sync_snd:
  "snd (run_sync env cfg s) =
     (case popen env (command_argv cfg ''sync'' []) of
        NotFound \<Rightarrow> Inl (SystemExit 1)
      | PopenError msg \<Rightarrow> Inl (OSError msg)
      | Exited n lines \<Rightarrow> if n = 0 then Inr () else Inl (SystemExit 1))"
  by (simp add: run_sync_def steps snapraid_command_snd split: proc_outcome.splits)

lemma run_sync_obs:
  "observed (trace (fst (run_sync env cfg s))) =
     observed (trace s) @ Started ''sync'' #
     (case popen env (command_argv cfg ''sync'' []) of
        NotFound \<Rightarrow> [Finished False]
      | PopenError msg \<Rightarrow> []
      | Exited n lines \<Rightarrow> if n = 0 then [] else [Finished False])"
  by (simp add: run_sync_def steps snapraid_command_snd snapraid_command_obs
      split: proc_outcome.splits)

lemma run_scrub_snd:
  "snd (run_scrub env cfg s) =
     (if scrub_enabled cfg then
        (case popen env (command_argv cfg ''scrub'' (scrub_args cfg)) of
           NotFound \<Rightarrow> Inl (SystemExit 1)
         | PopenError msg \<Rightarrow> Inl (OSError msg)
         | Exited n lines \<Rightarrow> if n = 0 then Inr () else Inl (SystemExit 1))
      else Inr ())"
  by (simp add: run_scrub_def steps snapraid_command_snd scrub_args_def
      split: proc_outcome.splits)

lemma run_scrub_obs:
  "observed (trace (fst (run_scrub env cfg s))) =
     observed (trace s) @
     (if scrub_enabled cfg then
        Started ''scrub'' #
        (case popen env (command_argv cfg ''scrub'' (scrub_args cfg)) of
           NotFound \<Rightarrow> [Finished False]
         | PopenError msg \<Rightarrow> []
         | Exited n lines \<Rightarrow> if n = 0 then [] else [Finished False])
      else [])"
  by (simp add: run_scrub_def steps snapraid_command_snd snapraid_command_obs scrub_args_def
      split: proc_outcome.splits)

section \<open>The run against the phase machine\<close>

lemma starts_with_append: "starts_with p (p @ xs)"
  by (induction p) simp_all

lemma run_gate_snd:
  "snd (run_gate env cfg out s) =
     (if threshold_exceeded cfg (classify out) then Inl (SystemExit 1)
      else if all_zero (classify out) then Inr ()
      else (case popen env (command_argv cfg ''sync'' []) of
              NotFound \<Rightarrow> Inl (SystemExit 1)
            | PopenError msg \<Rightarrow> Inl (OSError msg)
            | Exited n lines \<Rightarrow> if n = 0 then Inr () else Inl (SystemExit 1)))"
  by (simp add: run_gate_def steps run_sync_snd sum_zero_iff_all_zero Let_def
      threshold_exceeded_def diff_keys_def)

lemma run_gate_obs:
  "observed (trace (fst (run_gate env cfg out s))) =
     observed (trace s) @
     (if threshold_exceeded cfg (classify out) then [ThresholdAbort, Finished False]
      else if all_zero (classify out) then []
      else Started ''sync'' #
           (case popen env (command_argv cfg ''sync'' []) of
              NotFound \<Rightarrow> [Finished False]
            | PopenError msg \<Rightarrow> []
            | Exited n lines \<Rightarrow> if n = 0 then [] else [Finished False]))"
  using starts_with_append[of "''Deleted files exceed delete threshold of ''"
      "str_int (snapraid_deletethreshold cfg) @ '', aborting''"]
  by (simp add: run_gate_def steps run_sync_snd run_sync_obs sum_zero_iff_all_zero Let_def
      threshold_exceeded_def diff_keys_def)


lemma main_try_seq:
  "main_try env cfg (seq m k) s =
     (case snd (m s) of
        Inr x \<Rightarrow> main_try env cfg k (fst (m s))
      | Inl e \<Rightarrow> main_try env cfg (raise e) (fst (m s)))"
  by (cases "m s") (auto simp: main_try_def try_except_def seq_def then_do_def raise_def
      split: sum.splits prod.splits)

lemma main_try_then_do:
  "main_try env cfg (then_do m f) s =
     (case snd (m s) of
        Inr x \<Rightarrow> main_try env cfg (f x) (fst (m s))
      | Inl e \<Rightarrow> main_try env cfg (raise e) (fst (m s)))"
  by (cases "m s") (auto simp: main_try_def try_except_def then_do_def raise_def
      split: sum.splits prod.splits)

lemma main_try_raise_exit:
  "snd (main_try env cfg (raise (SystemExit c)) s) = Inl (SystemExit c)"
  "fst (main_try env cfg (raise (SystemExit c)) s) = s"
  by (simp_all add: main_try_def try_except_cases raise_step)

lemma main_try_raise_exn:
  "is_Exception e \<Longrightarrow> snd (main_try env cfg (raise e) s) = Inl (SystemExit 1)"
  "is_Exception e \<Longrightarrow>
   observed (trace (fst (main_try env cfg (raise e) s))) = observed (trace s) @ [Finished False]"
  by (simp_all add: main_try_def try_except_cases raise_step seq_cases logging_snd finish_snd
      finish_obs logging_exception_obs)

lemma main_try_finish:
  "snd (main_try env cfg (finish env cfg b) s) = Inl (SystemExit (if b then 0 else 1))"
  "observed (trace (fst (main_try env cfg (finish env cfg b) s))) = observed (trace s) @ [Finished b]"
  by (simp_all add: main_try_def try_except_cases finish_snd finish_obs)

lemmas main_try_steps =
  main_try_seq main_try_then_do main_try_raise_exit main_try_raise_exn main_try_finish
  logging_snd logging_info_obs logging_error_obs ret_step

lemma stage_scrub:
  "snd (main_try env cfg
          (seq (run_scrub env cfg) (seq (logging_info env ''All done'') (finish env cfg True))) s) =
     Inl (SystemExit (exit_code (spec_scrub env cfg)))"
  "observed (trace (fst (main_try env cfg
          (seq (run_scrub env cfg) (seq (logging_info env ''All done'') (finish env cfg True))) s))) =
     observed (trace s) @ spec_scrub env cfg"
  by (simp_all add: main_try_steps run_scrub_snd run_scrub_obs spec_scrub_def exit_code_def
      split: proc_outcome.splits)

lemma stage_gate:
  "snd (main_try env cfg
          (seq (run_gate env cfg out)
          (seq (run_scrub env cfg) (seq (logging_info env ''All done'') (finish env cfg True)))) s) =
     Inl (SystemExit (exit_code (spec_gate env cfg out)))"
  "observed (trace (fst (main_try env cfg
          (seq (run_gate env cfg out)
          (seq (run_scrub env cfg) (seq (logging_info env ''All done'') (finish env cfg True)))) s))) =
     observed (trace s) @ spec_gate env cfg out"
  by (simp_all add: main_try_seq[where m="run_gate env cfg out"] main_try_raise_exit
      main_try_raise_exn stage_scrub run_gate_snd run_gate_obs spec_gate_def exit_code_def
      split: proc_outcome.splits)


lemma stage_diff:
  "snd (main_try env cfg
          (then_do (snapraid_command env cfg ''diff'' None True) (\<lambda>diff_out.
           seq (run_gate env cfg diff_out)
          (seq (run_scrub env cfg) (seq (logging_info env ''All done'') (finish env cfg True))))) s) =
     Inl (SystemExit (exit_code (spec_diff env cfg)))"
  "observed (trace (fst (main_try env cfg
          (then_do (snapraid_command env cfg ''diff'' None True) (\<lambda>diff_out.
           seq (run_gate env cfg diff_out)
          (seq (run_scrub env cfg) (seq (logging_info env ''All done'') (finish env cfg True))))) s))) =
     observed (trace s) @ spec_diff env cfg"
  by (simp_all add: main_try_then_do main_try_raise_exit main_try_raise_exn stage_gate
      snapraid_command_snd snapraid_command_obs spec_diff_def exit_code_def
      split: proc_outcome.splits)

lemma main_refines_spec:
  "snd (main env cfg s) = Inl (SystemExit (exit_code (spec_marks env cfg)))"
  "observed (trace (fst (main env cfg s))) = observed (trace s) @ spec_marks env cfg"
  by (simp_all add: main_def run_def main_try_seq main_try_raise_exit main_try_raise_exn
      main_try_finish stage_diff logging_snd logging_info_obs logging_error_obs ret_step
      finish_snd finish_obs run_touch_snd run_touch_obs spec_marks_def exit_code_def seq_cases
      split: proc_outcome.splits)

section \<open>The claims on the command runner, the finalizer and the run\<close>

text \<open>
  C3: when the subprocess ran and exited with status \<open>n\<close>: if \<open>n\<close> is not zero and
  \<open>ignore_errors\<close> is false, \<open>snapraid_command\<close> raises \<open>CalledProcessError\<close> with the status
  \<open>n\<close> and the command \<open>"snapraid " + command\<close>; if \<open>ignore_errors\<close> is true the status is
  dropped and the captured lines of stdout are returned; if \<open>n\<close> is zero the lines are
  returned in either case.
\<close>

theorem snapraid_command_exit_status:
  assumes "popen env (command_argv cfg command (case args of None \<Rightarrow> [] | Some r \<Rightarrow> heap s r)) =
           Exited n lines"
  shows "(n \<noteq> 0 \<and> \<not> ignore_errors \<longrightarrow>
            snd (snapraid_command env cfg command args ignore_errors s) =
              Inl (CalledProcessError n (''snapraid '' @ command))) \<and>
         (n \<noteq> 0 \<and> ignore_errors \<longrightarrow>
            snd (snapraid_command env cfg command args ignore_errors s) = Inr (captured lines)) \<and>
         (n = 0 \<longrightarrow>
            snd (snapraid_command env cfg command args ignore_errors s) = Inr (captured lines))"
  using assms by (simp add: snapraid_command_snd)

theorem snapraid_command_exit_status_witness:
  "popen (example_env example_diff_lines (Exited 3 [(Stdout, ''Syncing...''), (Stderr, ''DANGER!'')]))
     (command_argv example_config ''sync'' []) =
     Exited 3 [(Stdout, ''Syncing...''), (Stderr, ''DANGER!'')] \<and>
   snd (snapraid_command (example_env example_diff_lines (Exited 3 [(Stdout, ''Syncing...''), (Stderr, ''DANGER!'')]))
          example_config ''sync'' None False (init_state example_config)) =
     Inl (CalledProcessError 3 ''snapraid sync'') \<and>
   snd (snapraid_command (example_env example_diff_lines (Exited 3 [(Stdout, ''Syncing...''), (Stderr, ''DANGER!'')]))
          example_config ''sync'' None True (init_state example_config)) =
     Inr [''Syncing...'']"
proof -
  have h: "popen (example_env example_diff_lines (Exited 3 [(Stdout, ''Syncing...''), (Stderr, ''DANGER!'')]))
     (command_argv example_config ''sync''
        (case None of None \<Rightarrow> [] | Some r \<Rightarrow> heap (init_state example_config) r)) =
     Exited 3 [(Stdout, ''Syncing...''), (Stderr, ''DANGER!'')]"
    by (simp add: example_env_def command_argv_def)
  have c: "captured [(Stdout, ''Syncing...''), (Stderr, ''DANGER!'')] = [''Syncing...'']"
    by (simp add: captured_def tee_clean_def str_strip_def isspace_def CR_def)
  show ?thesis
    using snapraid_command_exit_status[OF h, of False] snapraid_command_exit_status[OF h, of True] h c
    by simp
qed

text \<open>
  C10: \<open>snapraid_command\<close> changes the list object it is given: whatever the subprocess
  does, after the call the same reference holds the executable and the command in front
  of the old contents and \<open>--conf\<close>, the configuration path and \<open>--verbose\<close> behind them; no
  other list changes; a second call on the same reference wraps the list once more.
\<close>

theorem snapraid_command_mutates_args:
  "heap (fst (snapraid_command env cfg command (Some r) ignore_errors s)) r =
     [snapraid_executable cfg, command] @ heap s r @ [''--conf'', snapraid_config cfg, ''--verbose''] \<and>
   (\<forall>r'. r' \<noteq> r \<longrightarrow>
      heap (fst (snapraid_command env cfg command (Some r) ignore_errors s)) r' = heap s r') \<and>
   heap (fst (snapraid_command env cfg command2 (Some r) ignore2
          (fst (snapraid_command env cfg command (Some r) ignore_errors s)))) r =
     [snapraid_executable cfg, command2, snapraid_executable cfg, command] @ heap s r @
     [''--conf'', snapraid_config cfg, ''--verbose'', ''--conf'', snapraid_config cfg, ''--verbose'']"
  by (simp add: snapraid_command_heap command_argv_def)

theorem snapraid_command_mutates_args_witness:
  "heap (fst (snapraid_command (example_env example_diff_lines NotFound) example_config ''scrub'' (Some 0) False
      ((init_state example_config)\<lparr>heap := (\<lambda>r. [''--percentage'', ''22'']), next_ref := 1\<rparr>))) 0 =
     [''/usr/bin/snapraid'', ''scrub'', ''--percentage'', ''22'', ''--conf'', ''/etc/snapraid.conf'',
      ''--verbose''] \<and>
   heap (fst (snapraid_command (example_env example_diff_lines NotFound) example_config ''scrub'' (Some 0) False
      ((init_state example_config)\<lparr>heap := (\<lambda>r. [''--percentage'', ''22'']), next_ref := 1\<rparr>))) 1 =
     [''--percentage'', ''22'']"
  using snapraid_command_mutates_args[of "example_env example_diff_lines NotFound" example_config "''scrub''" 0 False
      "(init_state example_config)\<lparr>heap := (\<lambda>r. [''--percentage'', ''22'']), next_ref := 1\<rparr>"]
  by (simp add: example_config_def)


lemma emit_trace:
  "trace (fst (emit env l m x s)) = trace s @ (if l < OUTPUT then [] else [Log l m])"
  by (simp add: emit_def)

lemma logging_trace:
  "trace (fst (logging_info env m s)) = trace s @ [Log INFO m]"
  "trace (fst (logging_error env m s)) = trace s @ [Log ERROR m]"
  "trace (fst (logging_exception env m e s)) = trace s @ [Log ERROR m]"
  by (simp_all add: logging_info_def logging_error_def logging_log_def logging_exception_def
      emit_trace INFO_def ERROR_def OUTPUT_def)

lemma finish_logs_email_failure:
  assumes "str_contains (if success then ''success'' else ''error'') (email_sendon cfg)"
    and "snd (send_email env cfg success (s\<lparr>trace := trace s @ [Finish success]\<rparr>)) = Inl e"
  shows "Log ERROR ''Failed to send email'' \<in> set (trace (fst (finish env cfg success s)))"
proof -
  have "is_Exception e"
    using send_email_result[of env cfg success "s\<lparr>trace := trace s @ [Finish success]\<rparr>"] assms(2)
    by auto
  then show ?thesis
    using assms
    by (simp add: finish_def seq_cases try_except_cases logging_snd logging_trace raise_step)
qed

text \<open>
  C6: \<open>finish(success)\<close> always ends with \<open>SystemExit\<close>, status 0 when \<open>success\<close> is true
  and 1 when it is false, and is recorded as one call with that argument; when the
  notification is attempted and \<open>send_email\<close> raises, the failure is logged as an error and
  status and outcome are the same.
\<close>

theorem finish_exit_status:
  "snd (finish env cfg success s) = Inl (SystemExit (if success then 0 else 1)) \<and>
   finish_calls (trace (fst (finish env cfg success s))) = finish_calls (trace s) @ [success] \<and>
   (str_contains (if success then ''success'' else ''error'') (email_sendon cfg) \<and>
    snd (send_email env cfg success (s\<lparr>trace := trace s @ [Finish success]\<rparr>)) = Inl e \<longrightarrow>
      Log ERROR ''Failed to send email'' \<in> set (trace (fst (finish env cfg success s))))"
  using finish_logs_email_failure[of success cfg env s e]
  by (simp add: finish_snd finish_obs finish_calls_def)

theorem finish_exit_status_witness:
  "str_contains ''error'' (email_sendon example_config) \<and>
   snd (send_email (example_env example_diff_lines NotFound) example_config False
          ((init_state example_config)\<lparr>trace := trace (init_state example_config) @ [Finish False]\<rparr>)) =
     Inl (SMTPException ''Connection refused'') \<and>
   snd (finish (example_env example_diff_lines NotFound) example_config False
          (init_state example_config)) = Inl (SystemExit 1) \<and>
   finish_calls (trace (fst (finish (example_env example_diff_lines NotFound) example_config False
          (init_state example_config)))) = [False] \<and>
   Log ERROR ''Failed to send email'' \<in>
     set (trace (fst (finish (example_env example_diff_lines NotFound) example_config False
          (init_state example_config))))"
proof -
  note t = finish_exit_status[of "example_env example_diff_lines NotFound" example_config False
      "init_state example_config" "SMTPException ''Connection refused''"]
  have h1: "str_contains ''error'' (email_sendon example_config)"
    by (simp add: example_config_def)
  have h2: "snd (send_email (example_env example_diff_lines NotFound) example_config False
          ((init_state example_config)\<lparr>trace := trace (init_state example_config) @ [Finish False]\<rparr>)) =
     Inl (SMTPException ''Connection refused'')"
    by (simp add: send_email_def example_config_def example_env_def init_state_def
        logger_handlers_def Let_def)
  have h3: "finish_calls (trace (init_state example_config)) = []"
    by (simp add: init_state_def finish_calls_def observed_def)
  have a: "snd (finish (example_env example_diff_lines NotFound) example_config False
          (init_state example_config)) = Inl (SystemExit 1)"
    using t by simp
  have b: "finish_calls (trace (fst (finish (example_env example_diff_lines NotFound) example_config
          False (init_state example_config)))) = [False]"
    using t h3 by simp
  have c: "Log ERROR ''Failed to send email'' \<in>
     set (trace (fst (finish (example_env example_diff_lines NotFound) example_config False
          (init_state example_config))))"
    using t h1 h2 by simp
  show ?thesis by (intro conjI h1 h2 a b c)
qed

lemma spec_marks_finish:
  "concat (map finished_of (spec_marks env cfg)) = [spec_no_fatal env cfg]"
  by (simp add: spec_marks_def spec_diff_def spec_gate_def spec_scrub_def spec_no_fatal_def
      split: proc_outcome.splits)

lemma spec_marks_exit_code:
  "exit_code (spec_marks env cfg) = (if spec_no_fatal env cfg then 0 else 1)"
  by (simp add: spec_marks_def spec_diff_def spec_gate_def spec_scrub_def spec_no_fatal_def
      exit_code_def split: proc_outcome.splits)

text \<open>
  C2: for every environment (every outcome of every phase, the \<open>OSError\<close> that
  \<open>subprocess.Popen\<close> may raise beyond \<open>FileNotFoundError\<close> included), every
  configuration and every state, the run inside \<open>main\<close> calls \<open>finish\<close> exactly once, with
  the boolean that says that the phase machine of the specification met no fatal
  condition, and ends with the matching exit status.
\<close>

theorem main_finalizer_once:
  "finish_calls (trace (fst (main env cfg s))) = finish_calls (trace s) @ [spec_no_fatal env cfg] \<and>
   snd (main env cfg s) = Inl (SystemExit (if spec_no_fatal env cfg then 0 else 1))"
  by (simp add: finish_calls_def main_refines_spec spec_marks_finish spec_marks_exit_code)


lemma observed_init: "observed (trace (init_state cfg)) = []"
  by (simp add: init_state_def observed_def)

lemma spec_scrub_marks:
  "ThresholdAbort \<notin> set (spec_scrub env cfg)"
  "concat (map started_of (spec_scrub env cfg)) = (if scrub_enabled cfg then [''scrub''] else [])"
  by (simp_all add: spec_scrub_def)

lemma spec_gate_no_abort:
  "\<not> threshold_exceeded cfg (classify out) \<Longrightarrow> ThresholdAbort \<notin> set (spec_gate env cfg out)"
  by (simp add: spec_gate_def spec_scrub_marks)

lemma spec_gate_sync_count:
  "\<not> threshold_exceeded cfg (classify out) \<Longrightarrow>
   count_list (concat (map started_of (spec_gate env cfg out))) ''sync'' =
     (if all_zero (classify out) then 0 else 1)"
  by (simp add: spec_gate_def spec_scrub_marks)

lemma spec_marks_reaching_diff:
  assumes "isfile env (snapraid_config cfg)"
    and "snapraid_touch cfg \<longrightarrow> phase_ok (popen env (command_argv cfg ''touch'' []))"
    and "popen env (command_argv cfg ''diff'' []) = Exited n lines"
  shows "spec_marks env cfg =
           (if snapraid_touch cfg then [Started ''touch''] else []) @
           Started ''diff'' # spec_gate env cfg (captured lines)"
  using assms by (simp add: spec_marks_def spec_diff_def)

text \<open>
  C1: when the run reaches the result of Diff (the external configuration exists, Touch,
  if configured, succeeded, and the Diff process ran): if the delete threshold is not
  negative and the remove count exceeds it, the run logs the abort and calls
  \<open>finish(False)\<close> right after Diff, so that Sync and Scrub are never started, and exits
  with status 1; otherwise there is no abort on that basis, and Sync is started never when
  all four counts are zero and exactly once when one is not; with the threshold \<open>-1\<close> the
  threshold is never exceeded.
\<close>

theorem gate_policy:
  assumes "isfile env (snapraid_config cfg)"
    and "snapraid_touch cfg \<longrightarrow> phase_ok (popen env (command_argv cfg ''touch'' []))"
    and "popen env (command_argv cfg ''diff'' []) = Exited n lines"
  shows "(threshold_exceeded cfg (classify (captured lines)) \<longrightarrow>
            observed (trace (fst (main env cfg (init_state cfg)))) =
              (if snapraid_touch cfg then [Started ''touch''] else []) @
              [Started ''diff'', ThresholdAbort, Finished False] \<and>
            snd (main env cfg (init_state cfg)) = Inl (SystemExit 1)) \<and>
         (\<not> threshold_exceeded cfg (classify (captured lines)) \<longrightarrow>
            ThresholdAbort \<notin> set (observed (trace (fst (main env cfg (init_state cfg))))) \<and>
            count_list (spawned (trace (fst (main env cfg (init_state cfg))))) ''sync'' =
              (if all_zero (classify (captured lines)) then 0 else 1)) \<and>
         (snapraid_deletethreshold cfg = - 1 \<longrightarrow>
            \<not> threshold_exceeded cfg (classify (captured lines)))"
proof -
  note m = spec_marks_reaching_diff[OF assms]
  have a: "threshold_exceeded cfg (classify (captured lines)) \<Longrightarrow>
           spec_gate env cfg (captured lines) = [ThresholdAbort, Finished False]"
    by (simp add: spec_gate_def)
  show ?thesis
    using a spec_gate_no_abort[of cfg "captured lines" env]
      spec_gate_sync_count[of cfg "captured lines" env]
    by (auto simp: main_refines_spec observed_init m spawned_def exit_code_def
        threshold_exceeded_def)
qed

lemma captured_six: "captured six_removals =
    [''remove a'', ''remove b'', ''remove c'', ''remove d'', ''remove e'', ''remove f'']"
  by (simp add: captured_def six_removals_def tee_clean_def str_strip_def isspace_def CR_def)

lemma captured_example: "captured example_diff_lines = [''add a'', ''remove c'']"
  by (simp add: captured_def example_diff_lines_def tee_clean_def str_strip_def isspace_def CR_def)

lemma counts_six:
  "count_of (classify (captured six_removals)) ''remove'' = 6"
  "count_of (classify (captured six_removals)) ''add'' = 0"
  "count_of (classify (captured six_removals)) ''move'' = 0"
  "count_of (classify (captured six_removals)) ''update'' = 0"
  by (simp_all add: captured_six count_of_def classify_def diff_keys_def Counter_def SPC_def)

lemma counts_example:
  "count_of (classify (captured example_diff_lines)) ''remove'' = 1"
  "count_of (classify (captured example_diff_lines)) ''add'' = 1"
  "count_of (classify (captured example_diff_lines)) ''move'' = 0"
  "count_of (classify (captured example_diff_lines)) ''update'' = 0"
  by (simp_all add: captured_example count_of_def classify_def diff_keys_def Counter_def SPC_def)

lemma example_env_popen:
  "popen (example_env dl so) (command_argv cfg ''diff'' xs) = Exited 2 dl"
  "popen (example_env dl so) (command_argv cfg ''sync'' xs) = so"
  "popen (example_env dl so) (command_argv cfg ''touch'' xs) = Exited 0 []"
  "popen (example_env dl so) (command_argv cfg ''scrub'' xs) = Exited 0 []"
  "isfile (example_env dl so) p"
  by (simp_all add: example_env_def command_argv_def)

theorem gate_policy_witness:
  "isfile (example_env six_removals (Exited 0 [])) (snapraid_config example_config) \<and>
   popen (example_env six_removals (Exited 0 [])) (command_argv example_config ''diff'' []) =
     Exited 2 six_removals \<and>
   threshold_exceeded example_config (classify (captured six_removals)) \<and>
   observed (trace (fst (main (example_env six_removals (Exited 0 [])) example_config
      (init_state example_config)))) = [Started ''diff'', ThresholdAbort, Finished False] \<and>
   snd (main (example_env six_removals (Exited 0 [])) example_config (init_state example_config)) =
     Inl (SystemExit 1) \<and>
   \<not> threshold_exceeded (example_config\<lparr>snapraid_deletethreshold := - 1\<rparr>)
       (classify (captured six_removals)) \<and>
   ThresholdAbort \<notin> set (observed (trace (fst (main (example_env six_removals (Exited 0 []))
      (example_config\<lparr>snapraid_deletethreshold := - 1\<rparr>)
      (init_state (example_config\<lparr>snapraid_deletethreshold := - 1\<rparr>))))))  \<and>
   count_list (spawned (trace (fst (main (example_env six_removals (Exited 0 []))
      (example_config\<lparr>snapraid_deletethreshold := - 1\<rparr>)
      (init_state (example_config\<lparr>snapraid_deletethreshold := - 1\<rparr>)))))) ''sync'' = 1"
proof -
  have f: "isfile (example_env six_removals (Exited 0 [])) (snapraid_config example_config)"
    by (rule example_env_popen)
  have d: "popen (example_env six_removals (Exited 0 [])) (command_argv example_config ''diff'' []) =
     Exited 2 six_removals"
    by (rule example_env_popen)
  have t: "snapraid_touch example_config \<longrightarrow>
      phase_ok (popen (example_env six_removals (Exited 0 [])) (command_argv example_config ''touch'' []))"
    by (simp add: example_config_def)
  have x: "threshold_exceeded example_config (classify (captured six_removals))"
    by (simp add: threshold_exceeded_def counts_six example_config_def)
  have nt: "\<not> snapraid_touch example_config" by (simp add: example_config_def)
  note g1 = gate_policy[OF f t d]
  have f2: "isfile (example_env six_removals (Exited 0 []))
      (snapraid_config (example_config\<lparr>snapraid_deletethreshold := - 1\<rparr>))"
    by (rule example_env_popen)
  have d2: "popen (example_env six_removals (Exited 0 []))
      (command_argv (example_config\<lparr>snapraid_deletethreshold := - 1\<rparr>) ''diff'' []) =
     Exited 2 six_removals"
    by (rule example_env_popen)
  have t2: "snapraid_touch (example_config\<lparr>snapraid_deletethreshold := - 1\<rparr>) \<longrightarrow>
      phase_ok (popen (example_env six_removals (Exited 0 []))
        (command_argv (example_config\<lparr>snapraid_deletethreshold := - 1\<rparr>) ''touch'' []))"
    by (simp add: example_config_def)
  have x2: "\<not> threshold_exceeded (example_config\<lparr>snapraid_deletethreshold := - 1\<rparr>)
       (classify (captured six_removals))"
    by (simp add: threshold_exceeded_def)
  have z2: "\<not> all_zero (classify (captured six_removals))"
    by (simp add: all_zero_def counts_six)
  note g2 = gate_policy[OF f2 t2 d2]
  show ?thesis
    using g1 g2 x x2 z2 nt by (intro conjI f d) simp_all
qed

theorem main_finalizer_once_witness:
  "spec_no_fatal (example_env example_diff_lines (Exited 0 [])) example_config \<and>
   finish_calls (trace (fst (main (example_env example_diff_lines (Exited 0 [])) example_config
      (init_state example_config)))) = [True] \<and>
   snd (main (example_env example_diff_lines (Exited 0 [])) example_config
      (init_state example_config)) = Inl (SystemExit 0) \<and>
   \<not> spec_no_fatal (example_env example_diff_lines (PopenError ''Permission denied'')) example_config \<and>
   finish_calls (trace (fst (main (example_env example_diff_lines (PopenError ''Permission denied''))
      example_config (init_state example_config)))) = [False] \<and>
   snd (main (example_env example_diff_lines (PopenError ''Permission denied'')) example_config
      (init_state example_config)) = Inl (SystemExit 1)"
proof -
  have i: "finish_calls (trace (init_state example_config)) = []"
    by (simp add: finish_calls_def observed_init)
  have a: "spec_no_fatal (example_env example_diff_lines (Exited 0 [])) example_config"
    by (simp add: spec_no_fatal_def example_env_popen threshold_exceeded_def all_zero_def
        counts_example) (simp add: example_config_def)
  have b: "\<not> spec_no_fatal (example_env example_diff_lines (PopenError ''Permission denied''))
      example_config"
    by (simp add: spec_no_fatal_def example_env_popen threshold_exceeded_def all_zero_def
        counts_example)
  show ?thesis
    using main_finalizer_once[of "example_env example_diff_lines (Exited 0 [])" example_config
        "init_state example_config"]
      main_finalizer_once[of "example_env example_diff_lines (PopenError ''Permission denied'')"
        example_config "init_state example_config"] i a b
    by simp
qed

section \<open>The shortened transcript in the mail\<close>

lemma sent_bodies_append: "sent_bodies (xs @ ys) = sent_bodies xs @ sent_bodies ys"
  by (induction xs rule: sent_bodies.induct) simp_all

lemma send_email_body:
  assumes "smtp_host cfg \<noteq> []" and "email_log s = Some log"
  shows "sent_bodies (trace (fst (send_email env cfg success s))) =
           sent_bodies (trace s) @ [email_body success (email_maxsize cfg) log]"
  using assms
  by (simp add: send_email_def Let_def sent_bodies_append split: option.splits)

text \<open>
  C5, amended: when \<open>send_email\<close> sends the mail and the transcript is longer (in
  characters) than a positive configured limit of \<open>k\<close> KiB, the body of the mail is the
  header, the note, the first \<open>512 k\<close> characters of the transcript, the marker with the
  number of line feeds in the elided middle, and the last \<open>512 k\<close> characters: head and
  tail have the same size, and head, middle and tail make up the transcript. For a
  transcript of 10000 lines of 256 characters and a limit of 25 KiB (100 lines), the body
  holds the first 50 lines, the marker for 9900 lines, and the last 50 lines.
\<close>

theorem send_email_truncates_middle:
  assumes "smtp_host cfg \<noteq> []" and "email_log s = Some log"
  shows "(0 < email_maxsize cfg \<and> email_maxsize cfg * 1024 < int (length log) \<longrightarrow>
            sent_bodies (trace (fst (send_email env cfg success s))) =
              sent_bodies (trace s) @
              [(if success then ''SnapRAID job completed successfully:'' @ [LF, LF, LF]
                else ''Error during SnapRAID job:'' @ [LF, LF, LF]) @
               shorten_note @ take (nat (email_maxsize cfg * 512)) log @
               shorten_marker (int (count_list
                  (take (length log - 2 * nat (email_maxsize cfg * 512))
                     (drop (nat (email_maxsize cfg * 512)) log)) LF)) @
               drop (length log - nat (email_maxsize cfg * 512)) log] \<and>
            length (take (nat (email_maxsize cfg * 512)) log) =
              length (drop (length log - nat (email_maxsize cfg * 512)) log) \<and>
            log = take (nat (email_maxsize cfg * 512)) log @
                  take (length log - 2 * nat (email_maxsize cfg * 512))
                    (drop (nat (email_maxsize cfg * 512)) log) @
                  drop (length log - nat (email_maxsize cfg * 512)) log) \<and>
         (email_maxsize cfg = 25 \<and> log = concat ls \<and> length ls = 10000 \<and>
          (\<forall>l \<in> set ls. length l = 256 \<and> count_list l LF = 1) \<longrightarrow>
            sent_bodies (trace (fst (send_email env cfg success s))) =
              sent_bodies (trace s) @
              [(if success then ''SnapRAID job completed successfully:'' @ [LF, LF, LF]
                else ''Error during SnapRAID job:'' @ [LF, LF, LF]) @
               shorten_note @ concat (take 50 ls) @
               (''[...]'' @ [LF, LF, LF] @ '' --- LOG WAS TOO BIG - 9900 LINES REMOVED --'' @
                [LF, LF, LF] @ ''[...]'') @
               concat (drop 9950 ls)])"
proof (intro conjI impI)
  note b = send_email_body[OF assms, of env success]
  note m = shorten_log_middle[of "email_maxsize cfg" log success ls]
  {
    assume a: "0 < email_maxsize cfg \<and> email_maxsize cfg * 1024 < int (length log)"
    note m1 = m[THEN conjunct1, THEN mp, OF a]
    show "sent_bodies (trace (fst (send_email env cfg success s))) =
              sent_bodies (trace s) @
              [(if success then ''SnapRAID job completed successfully:'' @ [LF, LF, LF]
                else ''Error during SnapRAID job:'' @ [LF, LF, LF]) @
               shorten_note @ take (nat (email_maxsize cfg * 512)) log @
               shorten_marker (int (count_list
                  (take (length log - 2 * nat (email_maxsize cfg * 512))
                     (drop (nat (email_maxsize cfg * 512)) log)) LF)) @
               drop (length log - nat (email_maxsize cfg * 512)) log]"
      unfolding b using m1[THEN conjunct1] by simp
    show "length (take (nat (email_maxsize cfg * 512)) log) =
              length (drop (length log - nat (email_maxsize cfg * 512)) log)"
      using m1[THEN conjunct2, THEN conjunct1] .
    show "log = take (nat (email_maxsize cfg * 512)) log @
                  take (length log - 2 * nat (email_maxsize cfg * 512))
                    (drop (nat (email_maxsize cfg * 512)) log) @
                  drop (length log - nat (email_maxsize cfg * 512)) log"
      using m1[THEN conjunct2, THEN conjunct2] .
  }
  {
    assume a: "email_maxsize cfg = 25 \<and> log = concat ls \<and> length ls = 10000 \<and>
          (\<forall>l \<in> set ls. length l = 256 \<and> count_list l LF = 1)"
    then have u: "length ls = 10000 \<and> (\<forall>l \<in> set ls. length l = 256 \<and> count_list l LF = 1)"
      by blast
    have k: "email_maxsize cfg = 25" and l: "log = concat ls" using a by blast+
    have "shorten_log 25 (concat ls) =
        shorten_note @ concat (take 50 ls) @
        (''[...]'' @ [LF, LF, LF] @ '' --- LOG WAS TOO BIG - 9900 LINES REMOVED --'' @
         [LF, LF, LF] @ ''[...]'') @
        concat (drop 9950 ls)"
      using shorten_log_middle[of 25 "concat ls" success ls, THEN conjunct2, THEN mp, OF u] .
    then show "sent_bodies (trace (fst (send_email env cfg success s))) =
              sent_bodies (trace s) @
              [(if success then ''SnapRAID job completed successfully:'' @ [LF, LF, LF]
                else ''Error during SnapRAID job:'' @ [LF, LF, LF]) @
               shorten_note @ concat (take 50 ls) @
               (''[...]'' @ [LF, LF, LF] @ '' --- LOG WAS TOO BIG - 9900 LINES REMOVED --'' @
                [LF, LF, LF] @ ''[...]'') @
               concat (drop 9950 ls)]"
      unfolding b by (simp add: email_body_def k l)
  }
qed


theorem send_email_truncates_middle_witness:
  "smtp_host (example_config\<lparr>email_maxsize := 1\<rparr>) \<noteq> [] \<and>
   (0::int) < 1 \<and> (1::int) * 1024 < int (length (replicate 2048 LF)) \<and>
   sent_bodies (trace (fst (send_email (example_env example_diff_lines NotFound)
      (example_config\<lparr>email_maxsize := 1\<rparr>) False
      ((init_state example_config)\<lparr>email_log := Some (replicate 2048 LF)\<rparr>)))) =
     [''Error during SnapRAID job:'' @ [LF, LF, LF] @ shorten_note @ replicate 512 LF @
      shorten_marker 1024 @ replicate 512 LF] \<and>
   length (replicate 10000 (replicate 255 (CHR ''x'') @ [LF])) = 10000 \<and>
   sent_bodies (trace (fst (send_email (example_env example_diff_lines NotFound)
      (example_config\<lparr>email_maxsize := 25\<rparr>) False
      ((init_state example_config)\<lparr>email_log :=
         Some (concat (replicate 10000 (replicate 255 (CHR ''x'') @ [LF])))\<rparr>)))) =
     [''Error during SnapRAID job:'' @ [LF, LF, LF] @ shorten_note @
      concat (replicate 50 (replicate 255 (CHR ''x'') @ [LF])) @
      (''[...]'' @ [LF, LF, LF] @ '' --- LOG WAS TOO BIG - 9900 LINES REMOVED --'' @
       [LF, LF, LF] @ ''[...]'') @
      concat (replicate 50 (replicate 255 (CHR ''x'') @ [LF]))]"
proof -
  have host1: "smtp_host (example_config\<lparr>email_maxsize := 1\<rparr>) \<noteq> []"
    by (simp add: example_config_def)
  have log1: "email_log ((init_state example_config)\<lparr>email_log := Some (replicate 2048 LF)\<rparr>) =
      Some (replicate 2048 LF)"
    by simp
  have tr: "sent_bodies (trace (init_state example_config)) = []"
    by (simp add: init_state_def)
  have p1: "0 < email_maxsize (example_config\<lparr>email_maxsize := 1\<rparr>) \<and>
      email_maxsize (example_config\<lparr>email_maxsize := 1\<rparr>) * 1024 < int (length (replicate 2048 LF))"
    by simp
  have a: "sent_bodies (trace (fst (send_email (example_env example_diff_lines NotFound)
      (example_config\<lparr>email_maxsize := 1\<rparr>) False
      ((init_state example_config)\<lparr>email_log := Some (replicate 2048 LF)\<rparr>)))) =
     [''Error during SnapRAID job:'' @ [LF, LF, LF] @ shorten_note @ replicate 512 LF @
      shorten_marker 1024 @ replicate 512 LF]"
    using send_email_truncates_middle[OF host1 log1, of "example_env example_diff_lines NotFound"
        False "[]", THEN conjunct1, THEN mp, OF p1, THEN conjunct1]
    by (simp add: tr count_list_replicate)
  have host25: "smtp_host (example_config\<lparr>email_maxsize := 25\<rparr>) \<noteq> []"
    by (simp add: example_config_def)
  have log25: "email_log ((init_state example_config)\<lparr>email_log :=
         Some (concat (replicate 10000 (replicate 255 (CHR ''x'') @ [LF])))\<rparr>) =
      Some (concat (replicate 10000 (replicate 255 (CHR ''x'') @ [LF])))"
    by simp
  have p25: "email_maxsize (example_config\<lparr>email_maxsize := 25\<rparr>) = 25 \<and>
      concat (replicate 10000 (replicate 255 (CHR ''x'') @ [LF])) =
      concat (replicate 10000 (replicate 255 (CHR ''x'') @ [LF])) \<and>
      length (replicate 10000 (replicate 255 (CHR ''x'') @ [LF])) = 10000 \<and>
      (\<forall>l \<in> set (replicate 10000 (replicate 255 (CHR ''x'') @ [LF])).
         length l = 256 \<and> count_list l LF = 1)"
    by (simp add: count_list_append count_list_replicate LF_def)
  have b: "sent_bodies (trace (fst (send_email (example_env example_diff_lines NotFound)
      (example_config\<lparr>email_maxsize := 25\<rparr>) False
      ((init_state example_config)\<lparr>email_log :=
         Some (concat (replicate 10000 (replicate 255 (CHR ''x'') @ [LF])))\<rparr>)))) =
     [''Error during SnapRAID job:'' @ [LF, LF, LF] @ shorten_note @
      concat (replicate 50 (replicate 255 (CHR ''x'') @ [LF])) @
      (''[...]'' @ [LF, LF, LF] @ '' --- LOG WAS TOO BIG - 9900 LINES REMOVED --'' @
       [LF, LF, LF] @ ''[...]'') @
      concat (replicate 50 (replicate 255 (CHR ''x'') @ [LF]))]"
    using send_email_truncates_middle[OF host25 log25, of "example_env example_diff_lines NotFound"
        False "replicate 10000 (replicate 255 (CHR ''x'') @ [LF])", THEN conjunct2, THEN mp, OF p25]
    by (simp add: tr)
  have n: "(0::int) < 1" "(1::int) * 1024 < int (length (replicate 2048 LF))"
    "length (replicate 10000 (replicate 255 (CHR ''x'') @ [LF])) = 10000"
    by simp_all
  show ?thesis
    by (intro conjI host1 n a b)
qed

text \<open>
  C5, as stated, fails: the limit need not be positive. With the limit 0 (which is also
  what an absent or non-integer limit loads to) line 101 skips the shortening, so a
  transcript of one character, which exceeds the limit, is sent whole; with the limit
  \<open>-1\<close> a transcript of 2048 line feeds is "shortened" to its first 1536 and its last 1536
  characters around a marker for 0 lines.
\<close>

theorem shorten_log_limit_counterexample:
  "email_maxsize (example_config\<lparr>email_maxsize := 0\<rparr>) * 1024 < int (length ''x'') \<and>
   sent_bodies (trace (fst (send_email (example_env example_diff_lines NotFound)
      (example_config\<lparr>email_maxsize := 0\<rparr>) False
      ((init_state example_config)\<lparr>email_log := Some ''x''\<rparr>)))) =
     [''Error during SnapRAID job:'' @ [LF, LF, LF] @ ''x''] \<and>
   (- 1) * 1024 < int (length (replicate 2048 LF)) \<and>
   shorten_log (- 1) (replicate 2048 LF) =
     shorten_note @ replicate 1536 LF @ shorten_marker 0 @ replicate 1536 LF"
proof -
  have a: "sent_bodies (trace (fst (send_email (example_env example_diff_lines NotFound)
      (example_config\<lparr>email_maxsize := 0\<rparr>) False
      ((init_state example_config)\<lparr>email_log := Some ''x''\<rparr>)))) =
     [''Error during SnapRAID job:'' @ [LF, LF, LF] @ ''x'']"
    using send_email_body[of "example_config\<lparr>email_maxsize := 0\<rparr>"
        "(init_state example_config)\<lparr>email_log := Some ''x''\<rparr>" "''x''"
        "example_env example_diff_lines NotFound" False]
    by (simp add: example_config_def init_state_def email_body_def shorten_log_def)
  have b: "shorten_log (- 1) (replicate 2048 LF) =
     shorten_note @ replicate 1536 LF @ shorten_marker 0 @ replicate 1536 LF"
    by (simp add: shorten_log_def Let_def str_count_def slice_def slice_index_def)
  show ?thesis
    using a b by simp
qed

section \<open>The delete threshold from the configuration\<close>










end
